theory Spec2Isabelle
  imports Main "HOL-Library.Sublist"
begin

section \<open>Constants of the processing module\<close>

text \<open>
  \<^verbatim>\<open>src/lib/retrieval/processing/index.ts\<close>:
  \<^verbatim>\<open>CHUNK_SIZE = 2000\<close>, \<^verbatim>\<open>CHUNK_OVERLAP = 200\<close>,
  \<^verbatim>\<open>MAX_TOKENS_PER_REQUEST = 300000\<close>, \<^verbatim>\<open>MAX_BATCH_TOKENS = 250000\<close>.
  Token counts are JavaScript numbers holding integers; they are modelled as \<open>int\<close>.
\<close>

definition CHUNK_SIZE :: int where
  "CHUNK_SIZE = 2000"

definition CHUNK_OVERLAP :: int where
  "CHUNK_OVERLAP = 200"

definition MAX_TOKENS_PER_REQUEST :: int where
  "MAX_TOKENS_PER_REQUEST = 300000"

definition MAX_BATCH_TOKENS :: int where
  "MAX_BATCH_TOKENS = 250000"

section \<open>Chunks and the embedding of one batch\<close>

text \<open>
  \<^verbatim>\<open>FileItemChunk\<close> is \<^verbatim>\<open>{ content: string, tokens: number }\<close>.
\<close>

record FileItemChunk =
  content :: string
  tokens :: int

text \<open>
  Every call the handler makes to an embedding provider is recorded, in order:
  \<^verbatim>\<open>client.embeddings.create({ model, input: currentSubBatch })\<close> with its input, and
  \<^verbatim>\<open>generateLocalEmbedding(chunk.content)\<close> with its text.
\<close>

datatype provider_call = EmbeddingsCreate "string list" | GenerateLocalEmbedding string

text \<open>
  The local variables of the \<^verbatim>\<open>openai\<close> branch of \<^verbatim>\<open>processBatchEmbeddings\<close>.
  An embedding is a value of the type parameter \<open>'e\<close>; \<^verbatim>\<open>null\<close> is \<open>None\<close>.
\<close>

record 'e sub_batch_state =
  batchEmbeddings :: "'e option list"
  currentSubBatch :: "string list"
  currentSubBatchTokens :: int
  skippedChunks :: nat

definition initial_sub_batch_state :: "'e sub_batch_state" where
  "initial_sub_batch_state =
     \<lparr>batchEmbeddings = [], currentSubBatch = [], currentSubBatchTokens = 0, skippedChunks = 0\<rparr>"

text \<open>
  The \<^verbatim>\<open>for\<close> loop over \<^verbatim>\<open>batchChunks\<close> (part\_001, lines 316 to 349). The provider is the
  function \<open>create\<close>: \<open>Inr\<close> of \<^verbatim>\<open>response.data.map(item => item.embedding)\<close>, or \<open>Inl\<close> of
  the message of the error the call throws, which leaves the loop at once. The list \<open>sent\<close>
  collects the calls made so far.
\<close>

fun openai_loop ::
  "(string list \<Rightarrow> string + 'e list) \<Rightarrow> FileItemChunk list \<Rightarrow> 'e sub_batch_state \<Rightarrow>
   provider_call list \<Rightarrow> provider_call list \<times> (string + 'e sub_batch_state)" where
  "openai_loop create [] st sent = (sent, Inr st)"
| "openai_loop create (chunk # rest) st sent =
     (let chunkTokens = tokens chunk in
      if chunkTokens > MAX_TOKENS_PER_REQUEST then
        openai_loop create rest
          (st\<lparr>skippedChunks := skippedChunks st + 1,
              batchEmbeddings := batchEmbeddings st @ [None]\<rparr>) sent
      else if currentSubBatchTokens st + chunkTokens > MAX_BATCH_TOKENS
              \<and> length (currentSubBatch st) > 0 then
        (case create (currentSubBatch st) of
           Inl err \<Rightarrow> (sent @ [EmbeddingsCreate (currentSubBatch st)], Inl err)
         | Inr response \<Rightarrow>
             openai_loop create rest
               (st\<lparr>batchEmbeddings := batchEmbeddings st @ map Some response,
                   currentSubBatch := [content chunk],
                   currentSubBatchTokens := chunkTokens\<rparr>)
               (sent @ [EmbeddingsCreate (currentSubBatch st)]))
      else
        openai_loop create rest
          (st\<lparr>currentSubBatch := currentSubBatch st @ [content chunk],
              currentSubBatchTokens := currentSubBatchTokens st + chunkTokens\<rparr>) sent)"

text \<open>
  \<^verbatim>\<open>processBatchEmbeddings(batchChunks, provider, client)\<close>: the loop, then the last
  sub-batch when it is not empty (lines 351 to 361). The \<^verbatim>\<open>local\<close> branch maps every chunk
  through \<^verbatim>\<open>generateLocalEmbedding\<close> and turns a failure into \<^verbatim>\<open>null\<close>; any other
  provider gives the empty list. The result is the calls made and either the error thrown
  or the returned list.
\<close>

definition processBatchEmbeddings ::
  "(string list \<Rightarrow> string + 'e list) \<Rightarrow> (string \<Rightarrow> string + 'e) \<Rightarrow> FileItemChunk list \<Rightarrow> string \<Rightarrow>
   provider_call list \<times> (string + 'e option list)" where
  "processBatchEmbeddings create generateLocalEmbedding batchChunks provider =
     (if provider = ''openai'' then
        (case openai_loop create batchChunks initial_sub_batch_state [] of
           (sent, Inl err) \<Rightarrow> (sent, Inl err)
         | (sent, Inr st) \<Rightarrow>
             if length (currentSubBatch st) > 0 then
               (case create (currentSubBatch st) of
                  Inl err \<Rightarrow> (sent @ [EmbeddingsCreate (currentSubBatch st)], Inl err)
                | Inr response \<Rightarrow>
                    (sent @ [EmbeddingsCreate (currentSubBatch st)],
                     Inr (batchEmbeddings st @ map Some response)))
             else (sent, Inr (batchEmbeddings st)))
      else if provider = ''local'' then
        (map (\<lambda>chunk. GenerateLocalEmbedding (content chunk)) batchChunks,
         Inr (map (\<lambda>chunk. case generateLocalEmbedding (content chunk) of
                              Inl err \<Rightarrow> None
                            | Inr embedding \<Rightarrow> Some embedding) batchChunks))
      else ([], Inr []))"

text \<open>
  The sub-batches as lists of chunks: the same loop with the open sub-batch kept as the
  chunks whose contents were pushed, its token total being their sum. \<open>plan_loop\<close> gives
  the sub-batches closed inside the loop and the one still open at its end; \<open>subBatches\<close>
  adds the final flush. Lemma \<open>openai_requests_prefix\<close> ties it to the calls that
  \<open>processBatchEmbeddings\<close> makes.
\<close>

definition sum_tokens :: "FileItemChunk list \<Rightarrow> int" where
  "sum_tokens cs = sum_list (map tokens cs)"

fun plan_loop ::
  "FileItemChunk list \<Rightarrow> FileItemChunk list \<Rightarrow> FileItemChunk list list \<times> FileItemChunk list" where
  "plan_loop [] cur = ([], cur)"
| "plan_loop (chunk # rest) cur =
     (if tokens chunk > MAX_TOKENS_PER_REQUEST then plan_loop rest cur
      else if sum_tokens cur + tokens chunk > MAX_BATCH_TOKENS \<and> length cur > 0 then
        (case plan_loop rest [chunk] of (emitted, cur') \<Rightarrow> (cur # emitted, cur'))
      else plan_loop rest (cur @ [chunk]))"

definition subBatches :: "FileItemChunk list \<Rightarrow> FileItemChunk list list" where
  "subBatches batchChunks =
     (case plan_loop batchChunks [] of
        (emitted, cur) \<Rightarrow> if length cur > 0 then emitted @ [cur] else emitted)"

section \<open>The record store and the request\<close>

text \<open>
  The migration (part\_000) restricts \<^verbatim>\<open>processing_status\<close> to five values, with
  \<^verbatim>\<open>'pending'\<close> as the default.
\<close>

datatype processing_status = pending | processing | completed | failed | timeout

text \<open>
  A row of the \<^verbatim>\<open>files\<close> table, with the columns the handler reads or writes (the
  columns \<^verbatim>\<open>size\<close> and \<^verbatim>\<open>tokens\<close> are \<open>file_size\<close> and \<open>file_tokens\<close>), and a row of
  \<^verbatim>\<open>file_items\<close> as the handler builds it.
\<close>

record file_row =
  user_id :: string
  name :: string
  file_path :: string
  file_size :: int
  file_tokens :: int
  processing_status :: processing_status
  processing_error :: "string option"
  processing_started_at :: "string option"
  processing_completed_at :: "string option"

record 'e file_item =
  item_file_id :: string
  item_user_id :: string
  item_content :: string
  item_tokens :: int
  openai_embedding :: "'e option"
  local_embedding :: "'e option"

text \<open>
  What the handler can change: the two tables, the calls made to an embedding provider,
  and whether the body of the request has been read (\<^verbatim>\<open>req.formData()\<close>). An update
  of a table is applied; a query returns what the table holds, or the error that the
  collaborators give for it.
\<close>

record 'e store =
  files :: "string \<rightharpoonup> file_row"
  file_items :: "'e file_item list"
  provider_calls :: "provider_call list"
  bodyUsed :: bool

record profile =
  profile_user_id :: string

text \<open>
  \<^verbatim>\<open>formData.get("file_id")\<close> and \<^verbatim>\<open>formData.get("embeddingsProvider")\<close>; a missing field
  is \<^verbatim>\<open>null\<close>.
\<close>

record form =
  form_file_id :: "string option"
  form_embeddingsProvider :: "string option"

text \<open>
  \<^verbatim>\<open>supabaseAdmin.storage.from("files").download(path)\<close> gives an error, no data, or a
  blob; reading the blob (\<^verbatim>\<open>file.arrayBuffer()\<close>) throws or gives its bytes.
\<close>

datatype download_result = DownloadError string | NoFile | FileBlob "string + string"

text \<open>
  The answers of the collaborators the handler calls and that are not part of the
  repository's sources; \<open>Inl\<close> is the message of a thrown error.
  \<open>env_formData\<close> is the result of \<^verbatim>\<open>req.formData()\<close> on an unread body and
  \<open>env_formData_reread\<close> its result once the body has been read.
  \<open>env_metadataError\<close> is the error of the \<^verbatim>\<open>files\<close> query, \<open>env_existingChunksError\<close> the
  error of the \<^verbatim>\<open>file_items\<close> query of line 88, \<open>env_checkApiKey\<close> the error
  \<^verbatim>\<open>checkApiKey\<close> throws, \<open>env_status_update_error\<close> an error thrown while the failure path
  writes the status, \<open>env_development\<close> is \<^verbatim>\<open>NODE_ENV === "development"\<close>.
\<close>

record 'e env =
  env_getServerProfile :: "string + profile"
  env_formData :: "string + form"
  env_formData_reread :: "string + form"
  env_metadataError :: "string option"
  env_existingChunksError :: "string option"
  env_download :: "string \<Rightarrow> download_result"
  env_checkApiKey :: "string option"
  env_processCSV :: "string \<Rightarrow> string + FileItemChunk list"
  env_processJSON :: "string \<Rightarrow> string + FileItemChunk list"
  env_processMarkdown :: "string \<Rightarrow> string + FileItemChunk list"
  env_processPdf :: "string \<Rightarrow> string + FileItemChunk list"
  env_processTxt :: "string \<Rightarrow> string + FileItemChunk list"
  env_embeddings_create :: "string list \<Rightarrow> string + 'e list"
  env_generateLocalEmbedding :: "string \<Rightarrow> string + 'e"
  env_status_update_error :: "string option"
  env_started_at :: string
  env_completed_at :: string
  env_processingTime :: int
  env_development :: bool

section \<open>Responses\<close>

record statistics =
  totalChunks :: nat
  totalTokens :: int
  batchesProcessed :: nat
  processingTimeMs :: "int option"

record response =
  resp_status :: nat
  resp_message :: string
  resp_statistics :: "statistics option"
  resp_processingTimeMs :: "int option"
  resp_error :: "string option"

text \<open>\<^verbatim>\<open>String.prototype.includes\<close>: the second string occurs in the first.\<close>

fun str_includes :: "string \<Rightarrow> string \<Rightarrow> bool" where
  "str_includes [] sub = (sub = [])"
| "str_includes (c # cs) sub = (prefix sub (c # cs) \<or> str_includes cs sub)"

definition BATCH_SIZE :: nat where
  "BATCH_SIZE = 50"

text \<open>The early return of lines 94 to 107.\<close>

definition already_processed_response :: response where
  "already_processed_response =
     \<lparr>resp_status = 200, resp_message = ''File already processed'',
      resp_statistics = Some \<lparr>totalChunks = 0, totalTokens = 0, batchesProcessed = 0,
                               processingTimeMs = None\<rparr>,
      resp_processingTimeMs = None, resp_error = None\<rparr>"

text \<open>The response of lines 413 to 429; \<^verbatim>\<open>Math.ceil(totalChunks / BATCH_SIZE)\<close>.\<close>

definition success_response :: "'e env \<Rightarrow> nat \<Rightarrow> int \<Rightarrow> response" where
  "success_response env chunks_total tokens_total =
     \<lparr>resp_status = 200, resp_message = ''Embed Successful'',
      resp_statistics = Some \<lparr>totalChunks = chunks_total, totalTokens = tokens_total,
                               batchesProcessed = (chunks_total + BATCH_SIZE - 1) div BATCH_SIZE,
                               processingTimeMs = Some (env_processingTime env)\<rparr>,
      resp_processingTimeMs = None, resp_error = None\<rparr>"

text \<open>
  The categories of lines 473 to 516: the first test that matches decides the message and
  the code; without a match the code stays 500 and the message is the error's own, or a
  fixed text when that is empty.
\<close>

definition errorCode :: "string \<Rightarrow> nat" where
  "errorCode message =
     (if str_includes message ''timeout'' then 408
      else if str_includes message ''too large'' \<or> str_includes message ''size'' then 413
      else if str_includes message ''unauthorized'' \<or> str_includes message ''Unauthorized'' then 403
      else if str_includes message ''not found'' \<or> str_includes message ''File not found'' then 404
      else if str_includes message ''token'' \<or> str_includes message ''limit'' then 413
      else if str_includes message ''network'' \<or> str_includes message ''connection'' then 503
      else 500)"

definition errorMessage :: "string \<Rightarrow> string" where
  "errorMessage message =
     (if str_includes message ''timeout'' then
        ''Processing timed out. The file is too large or complex for processing.''
      else if str_includes message ''too large'' \<or> str_includes message ''size'' then
        ''File is too large for processing. Please try a smaller file.''
      else if str_includes message ''unauthorized'' \<or> str_includes message ''Unauthorized'' then
        ''Unauthorized access to file.''
      else if str_includes message ''not found'' \<or> str_includes message ''File not found'' then
        ''File not found. It may have been deleted.''
      else if str_includes message ''token'' \<or> str_includes message ''limit'' then
        ''File exceeds processing limits. Please try a smaller file.''
      else if str_includes message ''network'' \<or> str_includes message ''connection'' then
        ''Network error during processing. Please try again.''
      else if message = [] then ''An unexpected error occurred during file processing''
      else message)"

definition error_response :: "'e env \<Rightarrow> string \<Rightarrow> response" where
  "error_response env message =
     \<lparr>resp_status = errorCode message, resp_message = errorMessage message,
      resp_statistics = None, resp_processingTimeMs = Some (env_processingTime env),
      resp_error = (if env_development env then Some message else None)\<rparr>"

section \<open>The handler \<^verbatim>\<open>POST\<close>\<close>

text \<open>
  \<^verbatim>\<open>await req.formData()\<close>: the body is marked as read; what the call gives depends on
  whether it had been read before.
\<close>

definition read_formData :: "'e env \<Rightarrow> 'e store \<Rightarrow> 'e store \<times> (string + form)" where
  "read_formData env st =
     (st\<lparr>bodyUsed := True\<rparr>,
      if bodyUsed st then env_formData_reread env else env_formData env)"

text \<open>
  \<^verbatim>\<open>supabaseAdmin.from("files").update(...).eq("id", file_id)\<close>: the row with that id, if
  there is one, is changed.
\<close>

definition update_file :: "string \<Rightarrow> (file_row \<Rightarrow> file_row) \<Rightarrow> 'e store \<Rightarrow> 'e store" where
  "update_file file_id change st =
     (case files st file_id of
        None \<Rightarrow> st
      | Some row \<Rightarrow> st\<lparr>files := (files st)(file_id \<mapsto> change row)\<rparr>)"

text \<open>
  Lines 35 to 85: the profile, the form, the two parameters, the row of the file, its
  owner and its size. A falsy parameter is \<^verbatim>\<open>null\<close> or the empty string. The message
  for an unknown provider ends with a quote, the character of code 39.
\<close>

definition validate_request ::
  "'e env \<Rightarrow> 'e store \<Rightarrow> 'e store \<times> (string + (profile \<times> string \<times> string \<times> file_row))" where
  "validate_request env st =
     (case env_getServerProfile env of
        Inl err \<Rightarrow> (st, Inl err)
      | Inr profile \<Rightarrow>
          (case read_formData env st of
             (st1, Inl err) \<Rightarrow> (st1, Inl err)
           | (st1, Inr formData) \<Rightarrow>
               (case (form_file_id formData, form_embeddingsProvider formData) of
                  (Some file_id, Some embeddingsProvider) \<Rightarrow>
                    if file_id = [] \<or> embeddingsProvider = [] then
                      (st1, Inl ''Missing required parameters: file_id and embeddingsProvider'')
                    else if \<not> (embeddingsProvider = ''openai'' \<or> embeddingsProvider = ''local'') then
                      (st1, Inl (''Invalid embeddings provider. Must be 'openai' or 'local'' @ [CHR 0x27]))
                    else
                      (case env_metadataError env of
                         Some message \<Rightarrow>
                           (st1, Inl (''Failed to retrieve file metadata: '' @ message))
                       | None \<Rightarrow>
                           (case files st1 file_id of
                              None \<Rightarrow> (st1, Inl ''File not found in database'')
                            | Some fileMetadata \<Rightarrow>
                                if user_id fileMetadata \<noteq> profile_user_id profile then
                                  (st1, Inl ''Unauthorized: File belongs to different user'')
                                else if file_size fileMetadata > 200 * 1024 * 1024 then
                                  (st1, Inl ''File too large: Maximum size is 200MB'')
                                else (st1, Inr (profile, file_id, embeddingsProvider, fileMetadata))))
                | _ \<Rightarrow> (st1, Inl ''Missing required parameters: file_id and embeddingsProvider''))))"

text \<open>
  Lines 88 to 92: \<^verbatim>\<open>const { data: existingChunks } = await ... select("id")
  .eq("file_id", file_id).limit(1)\<close>. Only \<^verbatim>\<open>data\<close> is read: when the query fails it is
  \<^verbatim>\<open>null\<close>, here \<open>None\<close>, and the error is dropped.
\<close>

definition existingChunks :: "'e env \<Rightarrow> 'e store \<Rightarrow> string \<Rightarrow> 'e file_item list option" where
  "existingChunks env st file_id =
     (case env_existingChunksError env of
        Some message \<Rightarrow> None
      | None \<Rightarrow> Some (take 1 (filter (\<lambda>item. item_file_id item = file_id) (file_items st))))"

text \<open>The test of line 94: \<^verbatim>\<open>existingChunks && existingChunks.length > 0\<close>.\<close>

definition chunks_exist :: "'e file_item list option \<Rightarrow> bool" where
  "chunks_exist data = (case data of None \<Rightarrow> False | Some rows \<Rightarrow> length rows > 0)"

text \<open>Lines 116 to 123.\<close>

definition mark_processing :: "'e env \<Rightarrow> string \<Rightarrow> 'e store \<Rightarrow> 'e store" where
  "mark_processing env file_id st =
     update_file file_id
       (\<lambda>row. row\<lparr>processing_status := processing,
                  processing_started_at := Some (env_started_at env),
                  processing_error := None\<rparr>) st"

text \<open>
  \<^verbatim>\<open>fileMetadata.name.split(".").pop()?.toLowerCase()\<close>: what follows the last dot, or the
  whole name when it has no dot, with the letters A to Z (codes 65 to 90) lowered by
  setting the bit of value 32.
\<close>

definition toLowerCase :: "string \<Rightarrow> string" where
  "toLowerCase s =
     map (\<lambda>c. if 65 \<le> (of_char c :: nat) \<and> (of_char c :: nat) \<le> 90
               then (case c of Char b0 b1 b2 b3 b4 b5 b6 b7 \<Rightarrow> Char b0 b1 b2 b3 b4 True b6 b7)
               else c) s"

definition fileExtension :: "string \<Rightarrow> string" where
  "fileExtension file_name = toLowerCase (rev (takeWhile (\<lambda>c. c \<noteq> CHR ''.'') (rev file_name)))"

text \<open>
  Lines 125 to 178: the download, the bytes, the extension and, for \<^verbatim>\<open>openai\<close>, the API
  key. The result is the bytes and the extension.
\<close>

definition load_file :: "'e env \<Rightarrow> file_row \<Rightarrow> string \<Rightarrow> string + (string \<times> string)" where
  "load_file env fileMetadata embeddingsProvider =
     (case env_download env (file_path fileMetadata) of
        DownloadError message \<Rightarrow> Inl (''Failed to retrieve file from storage: '' @ message)
      | NoFile \<Rightarrow> Inl ''File not found in storage''
      | FileBlob (Inl message) \<Rightarrow> Inl (''Failed to read file data: '' @ message)
      | FileBlob (Inr fileBuffer) \<Rightarrow>
          if length fileBuffer = 0 then Inl ''File is empty''
          else if fileExtension (name fileMetadata) = [] then Inl ''File has no extension''
          else
            (case (if embeddingsProvider = ''openai'' then env_checkApiKey env else None) of
               Some message \<Rightarrow>
                 Inl (message @ '', make sure it is configured or else use local embeddings'')
             | None \<Rightarrow> Inr (fileBuffer, fileExtension (name fileMetadata))))"

text \<open>
  The rows built for one batch (lines 269 to 282): \<^verbatim>\<open>batchEmbeddings[index] || null\<close> is
  the entry at \<open>index\<close>, or \<^verbatim>\<open>null\<close> past the end of the list.
\<close>

definition embedding_at :: "'e option list \<Rightarrow> nat \<Rightarrow> 'e option" where
  "embedding_at embeddings index =
     (if index < length embeddings then embeddings ! index else None)"

definition batch_file_items ::
  "string \<Rightarrow> string \<Rightarrow> string \<Rightarrow> FileItemChunk list \<Rightarrow> 'e option list \<Rightarrow> 'e file_item list" where
  "batch_file_items file_id uid embeddingsProvider batchChunks embeddings =
     map (\<lambda>(chunk, index).
            \<lparr>item_file_id = file_id, item_user_id = uid,
             item_content = content chunk, item_tokens = tokens chunk,
             openai_embedding =
               (if embeddingsProvider = ''openai'' then embedding_at embeddings index else None),
             local_embedding =
               (if embeddingsProvider = ''local'' then embedding_at embeddings index else None)\<rparr>)
         (zip batchChunks [0..<length batchChunks])"

text \<open>
  The loop of lines 243 to 297 over \<^verbatim>\<open>i = 0, BATCH_SIZE, 2 * BATCH_SIZE, ...\<close>: the slice
  \<^verbatim>\<open>chunks.slice(i, i + BATCH_SIZE)\<close> is embedded and its rows are upserted before the next
  slice. The result is the store and the error thrown, if any.
\<close>

function process_batches ::
  "'e env \<Rightarrow> string \<Rightarrow> string \<Rightarrow> string \<Rightarrow> FileItemChunk list \<Rightarrow> nat \<Rightarrow> 'e store \<Rightarrow>
   'e store \<times> string option" where
  "process_batches env file_id uid embeddingsProvider chunks i st =
     (if i < length chunks then
        (let batchChunks = take BATCH_SIZE (drop i chunks) in
         case processBatchEmbeddings (env_embeddings_create env) (env_generateLocalEmbedding env)
                batchChunks embeddingsProvider of
           (calls, Inl err) \<Rightarrow> (st\<lparr>provider_calls := provider_calls st @ calls\<rparr>, Some err)
         | (calls, Inr embeddings) \<Rightarrow>
             process_batches env file_id uid embeddingsProvider chunks (i + BATCH_SIZE)
               (st\<lparr>provider_calls := provider_calls st @ calls,
                   file_items := file_items st @
                     batch_file_items file_id uid embeddingsProvider batchChunks embeddings\<rparr>))
      else (st, None))"
  by pat_completeness auto
termination
  by (relation "measure (\<lambda>(env, file_id, uid, embeddingsProvider, chunks, i, st). length chunks - i)")
     (auto simp: BATCH_SIZE_def)

text \<open>
  \<^verbatim>\<open>processFileInBatches\<close> (lines 207 to 301): the extractor chosen by the extension, the
  check for zero chunks, the totals, the loop. The result is \<^verbatim>\<open>totalChunks\<close> and
  \<^verbatim>\<open>totalTokens\<close>, or the error thrown.
\<close>

definition extract_chunks :: "'e env \<Rightarrow> string \<Rightarrow> string \<Rightarrow> string + FileItemChunk list" where
  "extract_chunks env extension blob =
     (if extension = ''csv'' then env_processCSV env blob
      else if extension = ''json'' then env_processJSON env blob
      else if extension = ''md'' then env_processMarkdown env blob
      else if extension = ''pdf'' then env_processPdf env blob
      else if extension = ''txt'' then env_processTxt env blob
      else Inl ''Unsupported file type'')"

definition processFileInBatches ::
  "'e env \<Rightarrow> string \<Rightarrow> string \<Rightarrow> string \<Rightarrow> string \<Rightarrow> string \<Rightarrow> 'e store \<Rightarrow>
   'e store \<times> (string + (nat \<times> int))" where
  "processFileInBatches env file_id uid embeddingsProvider extension blob st =
     (case extract_chunks env extension blob of
        Inl err \<Rightarrow> (st, Inl err)
      | Inr chunks \<Rightarrow>
          if length chunks = 0 then (st, Inl ''File could not be processed or is empty'')
          else
            (case process_batches env file_id uid embeddingsProvider chunks 0 st of
               (st', Some err) \<Rightarrow> (st', Inl err)
             | (st', None) \<Rightarrow> (st', Inr (length chunks, sum_tokens chunks))))"

text \<open>Lines 390 to 399.\<close>

definition finalize_success :: "'e env \<Rightarrow> string \<Rightarrow> int \<Rightarrow> 'e store \<Rightarrow> 'e store" where
  "finalize_success env file_id tokens_total st =
     update_file file_id
       (\<lambda>row. row\<lparr>file_tokens := tokens_total,
                  processing_status := completed,
                  processing_completed_at := Some (env_completed_at env),
                  processing_error := None\<rparr>) st"

text \<open>
  The \<^verbatim>\<open>try\<close> block of \<^verbatim>\<open>POST\<close>: \<open>Inr\<close> is the response it returns, \<open>Inl\<close> the message of the
  error it throws.
\<close>

definition POST_try :: "'e env \<Rightarrow> 'e store \<Rightarrow> 'e store \<times> (string + response)" where
  "POST_try env st =
     (case validate_request env st of
        (st1, Inl err) \<Rightarrow> (st1, Inl err)
      | (st1, Inr (profile, file_id, embeddingsProvider, fileMetadata)) \<Rightarrow>
          if chunks_exist (existingChunks env st1 file_id) then
            (st1, Inr already_processed_response)
          else if processing_status fileMetadata = processing then
            (st1, Inl ''File is currently being processed by another request'')
          else
            (let st2 = mark_processing env file_id st1 in
             case load_file env fileMetadata embeddingsProvider of
               Inl err \<Rightarrow> (st2, Inl err)
             | Inr (fileBuffer, extension) \<Rightarrow>
                 (case processFileInBatches env file_id (profile_user_id profile)
                         embeddingsProvider extension fileBuffer st2 of
                    (st3, Inl err) \<Rightarrow> (st3, Inl err)
                  | (st3, Inr (chunks_total, tokens_total)) \<Rightarrow>
                      (finalize_success env file_id tokens_total st3,
                       Inr (success_response env chunks_total tokens_total)))))"

text \<open>
  The status update of the \<^verbatim>\<open>catch\<close> block (lines 442 to 471). It reads the form again;
  an error thrown by that, or while the update is made, is caught and logged, and the
  store stays as it is.
\<close>

definition errorStatus :: "string \<Rightarrow> processing_status" where
  "errorStatus message = (if str_includes message ''timeout'' then timeout else failed)"

definition finalize_failure :: "'e env \<Rightarrow> string \<Rightarrow> 'e store \<Rightarrow> 'e store" where
  "finalize_failure env message st =
     (case read_formData env st of
        (st1, Inl statusUpdateError) \<Rightarrow> st1
      | (st1, Inr formData) \<Rightarrow>
          (case form_file_id formData of
             None \<Rightarrow> st1
           | Some file_id \<Rightarrow>
               if file_id = [] then st1
               else
                 (case env_status_update_error env of
                    Some statusUpdateError \<Rightarrow> st1
                  | None \<Rightarrow>
                      update_file file_id
                        (\<lambda>row. row\<lparr>processing_status := errorStatus message,
                                   processing_completed_at := Some (env_completed_at env),
                                   processing_error :=
                                     Some (if message = [] then ''Unknown error'' else message)\<rparr>)
                        st1)))"

text \<open>
  \<^verbatim>\<open>POST(req)\<close>: the request arrives with its body unread; a thrown error goes through
  the \<^verbatim>\<open>catch\<close> block, which tries the status update and builds the error response
  (lines 518 to 531). The timer of lines 25 to 28 throws in its own callback, outside
  the \<^verbatim>\<open>try\<close> block: that error never reaches the \<^verbatim>\<open>catch\<close> block and is no part of what
  the handler returns or writes.
\<close>

definition POST :: "'e env \<Rightarrow> 'e store \<Rightarrow> 'e store \<times> response" where
  "POST env st =
     (case POST_try env (st\<lparr>bodyUsed := False\<rparr>) of
        (st', Inr resp) \<Rightarrow> (st', resp)
      | (st', Inl message) \<Rightarrow> (finalize_failure env message st', error_response env message))"

section \<open>The client retry driver\<close>

text \<open>
  \<^verbatim>\<open>processFileInBackground\<close> in \<^verbatim>\<open>src/db/files.ts\<close> (lines 141 to 269). A caught value has
  a name and a message. One \<^verbatim>\<open>fetch\<close> ends with a response that is \<^verbatim>\<open>ok\<close>, with one that
  is not (its body parsed to \<^verbatim>\<open>json.message\<close>, or the error thrown while reading it), or
  with a rejection.
\<close>

record thrown =
  error_name :: string
  error_message :: string

datatype fetch_result = ResponseOk | ResponseNotOk "thrown + string" | FetchRejected thrown

text \<open>
  The toasts of the driver, by the place that shows them: the reason of a response that is
  not ok (line 178), the success (line 190), the retry notice with its delay and the number
  of the retry (line 218), and the four final errors (lines 233 to 267).
\<close>

datatype toast =
    ProcessingFailed string
  | ProcessingCompleted
  | Retrying nat nat
  | FinalTimedOut
  | FinalNetwork
  | FinalTooLarge
  | FinalGeneric

text \<open>
  What the driver does, in order: an attempt (its start in milliseconds, its
  \<^verbatim>\<open>retryCount\<close> and its \<^verbatim>\<open>timeoutDuration\<close>), a toast, or
  \<^verbatim>\<open>setTimeout(() => processFileInBackground(retryCount + 1), delay)\<close>.
\<close>

datatype driver_event = Attempt nat nat nat | Toast toast | SetTimeout nat

definition maxRetries :: nat where
  "maxRetries = 3"

definition baseDelay :: nat where
  "baseDelay = 2000"

definition timeoutDuration :: "nat \<Rightarrow> nat" where
  "timeoutDuration retryCount = (if retryCount = 0 then 10 * 60 * 1000 else 5 * 60 * 1000)"

text \<open>
  Time is explicit. The server is a function from the number of the attempt to the time
  the request takes and the way it ends when it is left alone. The timer of line 157
  aborts a request that has not ended after \<^verbatim>\<open>timeoutDuration\<close>: the \<^verbatim>\<open>fetch\<close> is then
  rejected with an \<^verbatim>\<open>AbortError\<close> at that time.
\<close>

definition abortError :: thrown where
  "abortError = \<lparr>error_name = ''AbortError'', error_message = ''The operation was aborted.''\<rparr>"

definition fetch_with_timeout :: "(nat \<Rightarrow> nat \<times> fetch_result) \<Rightarrow> nat \<Rightarrow> nat \<times> fetch_result" where
  "fetch_with_timeout server retryCount =
     (case server retryCount of
        (elapsed, result) \<Rightarrow>
          if timeoutDuration retryCount \<le> elapsed
          then (timeoutDuration retryCount, FetchRejected abortError)
          else (elapsed, result))"

text \<open>Lines 204 to 210 and 233 to 267.\<close>

definition shouldRetry :: "nat \<Rightarrow> thrown \<Rightarrow> bool" where
  "shouldRetry retryCount error =
     (retryCount < maxRetries \<and>
      (error_name error = ''AbortError'' \<or>
       str_includes (error_message error) ''network'' \<or>
       str_includes (error_message error) ''fetch'' \<or>
       str_includes (error_message error) ''ECONNRESET'' \<or>
       str_includes (error_message error) ''ETIMEDOUT''))"

definition final_toast :: "thrown \<Rightarrow> toast" where
  "final_toast error =
     (if error_name error = ''AbortError'' then FinalTimedOut
      else if str_includes (error_message error) ''network''
              \<or> str_includes (error_message error) ''fetch'' then FinalNetwork
      else if str_includes (error_message error) ''token''
              \<or> str_includes (error_message error) ''limit'' then FinalTooLarge
      else FinalGeneric)"

text \<open>
  The error the \<^verbatim>\<open>catch\<close> block receives, if the \<^verbatim>\<open>try\<close> block throws one.
\<close>

definition caught :: "fetch_result \<Rightarrow> thrown option" where
  "caught result =
     (case result of
        ResponseOk \<Rightarrow> None
      | ResponseNotOk (Inl error) \<Rightarrow> Some error
      | ResponseNotOk (Inr message) \<Rightarrow> None
      | FetchRejected error \<Rightarrow> Some error)"

definition settled_toast :: "fetch_result \<Rightarrow> toast" where
  "settled_toast result =
     (case result of
        ResponseNotOk (Inr message) \<Rightarrow> ProcessingFailed message
      | _ \<Rightarrow> ProcessingCompleted)"

text \<open>
  \<^verbatim>\<open>processFileInBackground(retryCount)\<close>, started at time \<open>now\<close>: the events from this
  attempt on. A retry starts when the scheduled delay has passed after the failure.
\<close>

function processFileInBackground ::
  "(nat \<Rightarrow> nat \<times> fetch_result) \<Rightarrow> nat \<Rightarrow> nat \<Rightarrow> driver_event list" where
  "processFileInBackground server now retryCount =
     Attempt now retryCount (timeoutDuration retryCount) #
     (let elapsed = fst (fetch_with_timeout server retryCount);
          result = snd (fetch_with_timeout server retryCount) in
      case caught result of
        None \<Rightarrow> [Toast (settled_toast result)]
      | Some error \<Rightarrow>
          if shouldRetry retryCount error then
            (let delay = baseDelay * 2 ^ retryCount in
             Toast (Retrying delay (retryCount + 1)) # SetTimeout delay #
             processFileInBackground server (now + elapsed + delay) (retryCount + 1))
          else [Toast (final_toast error)])"
  by pat_completeness auto
termination
  by (relation "measure (\<lambda>(server, now, retryCount). maxRetries - retryCount)")
     (auto simp: shouldRetry_def)

text \<open>The attempts among the events, as start, \<^verbatim>\<open>retryCount\<close> and deadline.\<close>

fun attempts :: "driver_event list \<Rightarrow> (nat \<times> nat \<times> nat) list" where
  "attempts [] = []"
| "attempts (Attempt start retryCount deadline # events) =
     (start, retryCount, deadline) # attempts events"
| "attempts (event # events) = attempts events"

section \<open>Concrete inputs\<close>

text \<open>
  A provider for the examples: the embedding of a text is the text itself, so an entry of
  the output names the chunk it was computed from.
\<close>

definition echo_create :: "string list \<Rightarrow> string + string list" where
  "echo_create input = Inr input"

definition echo_local :: "string \<Rightarrow> string + string" where
  "echo_local text = Inr text"

definition failing_create :: "string list \<Rightarrow> string + string list" where
  "failing_create input = Inl ''Connection error.''"

definition chunk_a :: FileItemChunk where
  "chunk_a = \<lparr>content = ''a'', tokens = 10\<rparr>"

definition chunk_b :: FileItemChunk where
  "chunk_b = \<lparr>content = ''b'', tokens = 300001\<rparr>"

definition chunk_c :: FileItemChunk where
  "chunk_c = \<lparr>content = ''c'', tokens = 10\<rparr>"

definition chunk_big :: FileItemChunk where
  "chunk_big = \<lparr>content = ''big'', tokens = 260000\<rparr>"

definition chunk_half :: FileItemChunk where
  "chunk_half = \<lparr>content = ''half'', tokens = 125000\<rparr>"

text \<open>Extractors, a download and a profile for the examples.\<close>

definition no_chunks :: "string \<Rightarrow> string + FileItemChunk list" where
  "no_chunks blob = Inr []"

definition two_chunks :: "string \<Rightarrow> string + FileItemChunk list" where
  "two_chunks blob = Inr [chunk_a, chunk_c]"

definition three_chunks :: "string \<Rightarrow> string + FileItemChunk list" where
  "three_chunks blob = Inr [chunk_a, chunk_b, chunk_c]"

definition blob_of :: "string \<Rightarrow> download_result" where
  "blob_of path = FileBlob (Inr ''bytes'')"

definition example_form :: form where
  "example_form = \<lparr>form_file_id = Some ''f1'', form_embeddingsProvider = Some ''openai''\<rparr>"

text \<open>
  The request names the file \<^verbatim>\<open>f1\<close> and the provider \<^verbatim>\<open>openai\<close>; the caller is \<^verbatim>\<open>u1\<close>; a
  second read of the body throws; the text extractor gives two chunks.
\<close>

definition example_env :: "string env" where
  "example_env =
     \<lparr>env_getServerProfile = Inr \<lparr>profile_user_id = ''u1''\<rparr>,
      env_formData = Inr example_form,
      env_formData_reread = Inl ''Body is unusable: Body has already been read'',
      env_metadataError = None,
      env_existingChunksError = None,
      env_download = blob_of,
      env_checkApiKey = None,
      env_processCSV = no_chunks,
      env_processJSON = no_chunks,
      env_processMarkdown = no_chunks,
      env_processPdf = no_chunks,
      env_processTxt = two_chunks,
      env_embeddings_create = echo_create,
      env_generateLocalEmbedding = echo_local,
      env_status_update_error = None,
      env_started_at = ''2024-01-01T00:00:00.000Z'',
      env_completed_at = ''2024-01-01T00:00:05.000Z'',
      env_processingTime = 5000,
      env_development = False\<rparr>"

text \<open>
  Rows of the file \<^verbatim>\<open>f1\<close>: a pending text file, the same with an extension no extractor
  handles, and the same with a declared size of 200 MiB and one byte.
\<close>

definition example_row :: file_row where
  "example_row =
     \<lparr>user_id = ''u1'', name = ''notes.TXT'', file_path = ''u1/f1'', file_size = 1024,
      file_tokens = 0, processing_status = pending, processing_error = None,
      processing_started_at = None, processing_completed_at = None\<rparr>"

definition xyz_row :: file_row where
  "xyz_row = example_row\<lparr>name := ''notes.xyz''\<rparr>"


definition stored_item :: "string file_item" where
  "stored_item =
     \<lparr>item_file_id = ''f1'', item_user_id = ''u1'', item_content = ''a'', item_tokens = 10,
      openai_embedding = Some ''a'', local_embedding = None\<rparr>"

definition store_with :: "file_row \<Rightarrow> string file_item list \<Rightarrow> string store" where
  "store_with row items =
     \<lparr>files = [''f1'' \<mapsto> row], file_items = items, provider_calls = [], bodyUsed = False\<rparr>"

text \<open>
  Servers for the driver: one that never answers within twenty minutes, and one that
  cannot be reached.
\<close>

definition slow_server :: "nat \<Rightarrow> nat \<times> fetch_result" where
  "slow_server retryCount = (20 * 60 * 1000, ResponseOk)"

definition offline_server :: "nat \<Rightarrow> nat \<times> fetch_result" where
  "offline_server retryCount =
     (0, FetchRejected \<lparr>error_name = ''TypeError'', error_message = ''Failed to fetch''\<rparr>)"

text \<open>
  The invariant of the status fields: \<^verbatim>\<open>processing_error\<close> is set only on a row whose status
  is \<^verbatim>\<open>failed\<close> or \<^verbatim>\<open>timeout\<close>.
\<close>

definition error_only_when_failed :: "file_row \<Rightarrow> bool" where
  "error_only_when_failed row \<longleftrightarrow>
     (processing_error row \<noteq> None \<longrightarrow>
      processing_status row = failed \<or> processing_status row = timeout)"


section \<open>Properties of the batch planner\<close>

lemma sum_tokens_simps [simp]:
  "sum_tokens [] = 0"
  "sum_tokens (cs @ [c]) = sum_tokens cs + tokens c"
  "sum_tokens [c] = tokens c"
  by (simp_all add: sum_tokens_def)

text \<open>
  A sub-batch is within budget when its tokens sum to at most \<^verbatim>\<open>MAX_BATCH_TOKENS\<close>, or
  when it is a single chunk that the loop had to take on an empty sub-batch.
\<close>

lemma plan_loop_budget:
  assumes "sum_tokens cur \<le> MAX_BATCH_TOKENS \<or>
           (\<exists>c. cur = [c] \<and> MAX_BATCH_TOKENS < tokens c \<and> tokens c \<le> MAX_TOKENS_PER_REQUEST)"
  shows "(\<forall>sb \<in> set (fst (plan_loop cs cur)). sb \<noteq> [] \<and>
            (sum_tokens sb \<le> MAX_BATCH_TOKENS \<or>
             (\<exists>c. sb = [c] \<and> MAX_BATCH_TOKENS < tokens c \<and> tokens c \<le> MAX_TOKENS_PER_REQUEST)))
         \<and> (sum_tokens (snd (plan_loop cs cur)) \<le> MAX_BATCH_TOKENS \<or>
             (\<exists>c. snd (plan_loop cs cur) = [c] \<and> MAX_BATCH_TOKENS < tokens c
                  \<and> tokens c \<le> MAX_TOKENS_PER_REQUEST))"
  using assms
proof (induction cs arbitrary: cur)
  case Nil
  then show ?case by simp
next
  case (Cons c cs)
  show ?case
  proof (cases "tokens c > MAX_TOKENS_PER_REQUEST")
    case True
    then have "plan_loop (c # cs) cur = plan_loop cs cur" by simp
    with Cons.IH[OF Cons.prems] show ?thesis by simp
  next
    case False
    have single: "sum_tokens [c] \<le> MAX_BATCH_TOKENS \<or>
        (\<exists>c'. [c] = [c'] \<and> MAX_BATCH_TOKENS < tokens c' \<and> tokens c' \<le> MAX_TOKENS_PER_REQUEST)"
      using False by auto
    show ?thesis
    proof (cases "sum_tokens cur + tokens c > MAX_BATCH_TOKENS \<and> length cur > 0")
      case True
      with False Cons.IH[OF single] Cons.prems show ?thesis
        by (auto split: prod.splits)
    next
      case open_kept: False
      have "sum_tokens (cur @ [c]) \<le> MAX_BATCH_TOKENS \<or>
          (\<exists>c'. cur @ [c] = [c'] \<and> MAX_BATCH_TOKENS < tokens c'
               \<and> tokens c' \<le> MAX_TOKENS_PER_REQUEST)"
      proof (cases "cur = []")
        case True
        then show ?thesis using single by simp
      next
        case False
        with open_kept show ?thesis by auto
      qed
      from Cons.IH[OF this] False open_kept show ?thesis by auto
    qed
  qed
qed

lemma plan_loop_filter:
  "plan_loop (filter (\<lambda>c. \<not> tokens c > MAX_TOKENS_PER_REQUEST) cs) cur = plan_loop cs cur"
  by (induction cs arbitrary: cur) auto

lemma plan_loop_members:
  "\<forall>c \<in> set cur. tokens c \<le> MAX_TOKENS_PER_REQUEST \<Longrightarrow>
   (\<forall>sb \<in> set (fst (plan_loop cs cur)). \<forall>c \<in> set sb. tokens c \<le> MAX_TOKENS_PER_REQUEST)
   \<and> (\<forall>c \<in> set (snd (plan_loop cs cur)). tokens c \<le> MAX_TOKENS_PER_REQUEST)"
proof (induction cs arbitrary: cur)
  case Nil
  then show ?case by simp
next
  case (Cons c cs)
  show ?case
  proof (cases "tokens c > MAX_TOKENS_PER_REQUEST")
    case True
    then have "plan_loop (c # cs) cur = plan_loop cs cur" by simp
    with Cons.IH[OF Cons.prems] show ?thesis by simp
  next
    case False
    then have single: "\<forall>x \<in> set [c]. tokens x \<le> MAX_TOKENS_PER_REQUEST" by simp
    from False Cons.prems
    have app: "\<forall>x \<in> set (cur @ [c]). tokens x \<le> MAX_TOKENS_PER_REQUEST" by auto
    show ?thesis
    proof (cases "sum_tokens cur + tokens c > MAX_BATCH_TOKENS \<and> length cur > 0")
      case True
      with False have "plan_loop (c # cs) cur =
          (cur # fst (plan_loop cs [c]), snd (plan_loop cs [c]))"
        by (simp add: case_prod_beta)
      with Cons.IH[OF single] Cons.prems show ?thesis by simp
    next
      case open_kept: False
      with False have "plan_loop (c # cs) cur = plan_loop cs (cur @ [c])"
        by auto
      with Cons.IH[OF app] show ?thesis by simp
    qed
  qed
qed

text \<open>
  A chunk over \<^verbatim>\<open>MAX_TOKENS_PER_REQUEST\<close> is in no sub-batch, and the sub-batches are those
  of the sequence without such chunks.
\<close>

lemma subBatches_without_oversized:
  "subBatches (filter (\<lambda>c. \<not> tokens c > MAX_TOKENS_PER_REQUEST) cs) = subBatches cs"
  by (simp add: subBatches_def plan_loop_filter)

lemma subBatches_members:
  assumes "sb \<in> set (subBatches cs)" and "c \<in> set sb"
  shows "tokens c \<le> MAX_TOKENS_PER_REQUEST"
proof -
  obtain emitted cur where plan: "plan_loop cs [] = (emitted, cur)"
    by (cases "plan_loop cs []")
  from plan_loop_members[of "[]" cs] plan
  have closed: "\<forall>sb \<in> set emitted. \<forall>c \<in> set sb. tokens c \<le> MAX_TOKENS_PER_REQUEST"
    and left: "\<forall>c \<in> set cur. tokens c \<le> MAX_TOKENS_PER_REQUEST"
    by simp_all
  from assms(1) plan have "sb \<in> set emitted \<or> sb = cur"
    by (auto simp: subBatches_def split: if_splits)
  with closed left assms(2) show ?thesis by blast
qed

text \<open>
  The loop of the handler and \<open>plan_loop\<close> run in step: the calls made are the closed
  sub-batches, in order, and the open sub-batch is the same.
\<close>

lemma openai_loop_plan:
  assumes "currentSubBatch st = map content cur" "currentSubBatchTokens st = sum_tokens cur"
  shows "(\<forall>st'. snd (openai_loop create cs st sent) = Inr st' \<longrightarrow>
              fst (openai_loop create cs st sent) =
                sent @ map (\<lambda>sb. EmbeddingsCreate (map content sb)) (fst (plan_loop cs cur))
              \<and> currentSubBatch st' = map content (snd (plan_loop cs cur))
              \<and> currentSubBatchTokens st' = sum_tokens (snd (plan_loop cs cur)))
         \<and> (\<exists>ys. prefix ys (map (\<lambda>sb. EmbeddingsCreate (map content sb)) (fst (plan_loop cs cur)))
                    \<and> fst (openai_loop create cs st sent) = sent @ ys)"
  using assms
proof (induction cs arbitrary: st cur sent)
  case Nil
  then show ?case by simp
next
  case (Cons c cs)
  show ?case
  proof (cases "tokens c > MAX_TOKENS_PER_REQUEST")
    case True
    have "currentSubBatch (st\<lparr>skippedChunks := skippedChunks st + 1,
              batchEmbeddings := batchEmbeddings st @ [None]\<rparr>) = map content cur"
      "currentSubBatchTokens (st\<lparr>skippedChunks := skippedChunks st + 1,
              batchEmbeddings := batchEmbeddings st @ [None]\<rparr>) = sum_tokens cur"
      using Cons.prems by simp_all
    from Cons.IH[OF this, of sent] True show ?thesis by simp
  next
    case False
    show ?thesis
    proof (cases "sum_tokens cur + tokens c > MAX_BATCH_TOKENS \<and> length cur > 0")
      case True
      show ?thesis
      proof (cases "create (currentSubBatch st)")
        case (Inl err)
        with False True Cons.prems show ?thesis
          by (auto split: prod.splits intro!: exI[of _ "[EmbeddingsCreate (map content cur)]"])
      next
        case (Inr response)
        let ?st = "st\<lparr>batchEmbeddings := batchEmbeddings st @ map Some response,
                   currentSubBatch := [content c],
                   currentSubBatchTokens := tokens c\<rparr>"
        have "currentSubBatch ?st = map content [c]" "currentSubBatchTokens ?st = sum_tokens [c]"
          by simp_all
        from Cons.IH[OF this, of "sent @ [EmbeddingsCreate (currentSubBatch st)]"]
        show ?thesis using False True Inr Cons.prems
          by (auto split: prod.splits)
      qed
    next
      case open_kept: False
      let ?st = "st\<lparr>currentSubBatch := currentSubBatch st @ [content c],
              currentSubBatchTokens := currentSubBatchTokens st + tokens c\<rparr>"
      have "currentSubBatch ?st = map content (cur @ [c])"
        "currentSubBatchTokens ?st = sum_tokens (cur @ [c])"
        using Cons.prems by simp_all
      from Cons.IH[OF this, of sent] show ?thesis using False open_kept Cons.prems by auto
    qed
  qed
qed

lemma openai_requests_prefix:
  "prefix (fst (processBatchEmbeddings create gen cs ''openai''))
          (map (\<lambda>sb. EmbeddingsCreate (map content sb)) (subBatches cs))"
proof -
  let ?call = "\<lambda>sb. EmbeddingsCreate (map content sb)"
  have inv: "currentSubBatch (initial_sub_batch_state :: 'a sub_batch_state) = map content []"
     "currentSubBatchTokens (initial_sub_batch_state :: 'a sub_batch_state) = sum_tokens []"
    by (simp_all add: initial_sub_batch_state_def)
  obtain emitted cur where plan: "plan_loop cs [] = (emitted, cur)"
    by (cases "plan_loop cs []")
  obtain sent res where loop: "openai_loop create cs initial_sub_batch_state [] = (sent, res)"
    by (cases "openai_loop create cs (initial_sub_batch_state :: 'a sub_batch_state) []")
  from openai_loop_plan[OF inv, of create cs "[]"] plan loop
  have whole: "\<forall>st'. res = Inr st' \<longrightarrow>
          sent = map ?call emitted \<and> currentSubBatch st' = map content cur"
    and part: "prefix sent (map ?call emitted)"
    by simp_all
  show ?thesis
  proof (cases res)
    case (Inl err)
    with loop part plan show ?thesis
      by (simp add: processBatchEmbeddings_def subBatches_def)
  next
    case (Inr st')
    with whole have "sent = map ?call emitted" "currentSubBatch st' = map content cur"
      by simp_all
    with loop plan Inr show ?thesis
      by (cases "create (map content cur)")
         (simp_all add: processBatchEmbeddings_def subBatches_def)
  qed
qed

lemma openai_requests_all:
  assumes "snd (processBatchEmbeddings create gen cs ''openai'') = Inr r"
  shows "fst (processBatchEmbeddings create gen cs ''openai'') =
          map (\<lambda>sb. EmbeddingsCreate (map content sb)) (subBatches cs)"
proof -
  let ?call = "\<lambda>sb. EmbeddingsCreate (map content sb)"
  have inv: "currentSubBatch (initial_sub_batch_state :: 'a sub_batch_state) = map content []"
     "currentSubBatchTokens (initial_sub_batch_state :: 'a sub_batch_state) = sum_tokens []"
    by (simp_all add: initial_sub_batch_state_def)
  obtain emitted cur where plan: "plan_loop cs [] = (emitted, cur)"
    by (cases "plan_loop cs []")
  obtain sent res where loop: "openai_loop create cs initial_sub_batch_state [] = (sent, res)"
    by (cases "openai_loop create cs (initial_sub_batch_state :: 'a sub_batch_state) []")
  from openai_loop_plan[OF inv, of create cs "[]"] plan loop
  have whole: "\<forall>st'. res = Inr st' \<longrightarrow>
          sent = map ?call emitted \<and> currentSubBatch st' = map content cur"
    by simp
  show ?thesis
  proof (cases res)
    case (Inl err)
    with loop assms show ?thesis
      by (simp add: processBatchEmbeddings_def)
  next
    case (Inr st')
    with whole have "sent = map ?call emitted" "currentSubBatch st' = map content cur"
      by simp_all
    with loop plan Inr assms show ?thesis
      by (cases "create (map content cur)")
         (simp_all add: processBatchEmbeddings_def subBatches_def)
  qed
qed

text \<open>
  C1, positional alignment. The claim fails on the code: a \<^verbatim>\<open>null\<close> is pushed at once for
  a skipped chunk, while the embeddings of the chunks before it are pushed only when their
  sub-batch is sent. For the chunks \<open>a\<close> (10 tokens), \<open>b\<close> (300001 tokens) and \<open>c\<close>
  (10 tokens) the returned list is \<^verbatim>\<open>[null, emb(a), emb(c)]\<close>: the entry at position 0 is
  \<^verbatim>\<open>null\<close> although \<open>a\<close> was embedded, and the entry at position 1, the place of the
  skipped chunk, is the embedding of \<open>a\<close>.
\<close>

theorem processBatchEmbeddings_misaligned:
  "processBatchEmbeddings echo_create echo_local [chunk_a, chunk_b, chunk_c] ''openai'' =
     ([EmbeddingsCreate [''a'', ''c'']], Inr [None, Some ''a'', Some ''c''])"
  by (simp add: processBatchEmbeddings_def initial_sub_batch_state_def chunk_a_def chunk_b_def
      chunk_c_def MAX_TOKENS_PER_REQUEST_def MAX_BATCH_TOKENS_def echo_create_def)

text \<open>
  C2, batch token bound, as stated: every sub-batch sent has at most \<^verbatim>\<open>MAX_BATCH_TOKENS\<close>
  tokens, also for a chunk between the two ceilings that arrives on an empty sub-batch.
  It fails there: a single chunk of 260000 tokens is sent as it is.
\<close>

theorem batch_bound_counterexample:
  "processBatchEmbeddings echo_create echo_local [chunk_big] ''openai'' =
     ([EmbeddingsCreate [''big'']], Inr [Some ''big''])
   \<and> subBatches [chunk_big] = [[chunk_big]]
   \<and> sum_tokens [chunk_big] = 260000
   \<and> MAX_BATCH_TOKENS < sum_tokens [chunk_big]"
  by (simp add: processBatchEmbeddings_def initial_sub_batch_state_def chunk_big_def subBatches_def
      MAX_TOKENS_PER_REQUEST_def MAX_BATCH_TOKENS_def echo_create_def)

text \<open>
  C2, amended: the calls made for a batch are, in order, the sub-batches of \<open>subBatches\<close>
  (all of them when no call fails, the first ones up to the failing call otherwise); no
  sub-batch is empty; and each sums to at most \<^verbatim>\<open>MAX_BATCH_TOKENS\<close> tokens unless it is a
  single chunk whose own count lies above \<^verbatim>\<open>MAX_BATCH_TOKENS\<close> and at most at
  \<^verbatim>\<open>MAX_TOKENS_PER_REQUEST\<close>.
\<close>

theorem sub_batches_within_budget:
  "prefix (fst (processBatchEmbeddings create gen batchChunks ''openai''))
          (map (\<lambda>sb. EmbeddingsCreate (map content sb)) (subBatches batchChunks))
   \<and> (\<forall>sb \<in> set (subBatches batchChunks).
         sb \<noteq> [] \<and>
         (sum_tokens sb \<le> MAX_BATCH_TOKENS \<or>
          (\<exists>c. sb = [c] \<and> MAX_BATCH_TOKENS < tokens c \<and> tokens c \<le> MAX_TOKENS_PER_REQUEST)))"
proof -
  have start: "sum_tokens [] \<le> MAX_BATCH_TOKENS \<or>
      (\<exists>c. [] = [c] \<and> MAX_BATCH_TOKENS < tokens c \<and> tokens c \<le> MAX_TOKENS_PER_REQUEST)"
    by (simp add: MAX_BATCH_TOKENS_def)
  obtain emitted cur where plan: "plan_loop batchChunks [] = (emitted, cur)"
    by (cases "plan_loop batchChunks []")
  from plan_loop_budget[OF start, of batchChunks] plan
  have closed: "\<forall>sb \<in> set emitted. sb \<noteq> [] \<and>
         (sum_tokens sb \<le> MAX_BATCH_TOKENS \<or>
          (\<exists>c. sb = [c] \<and> MAX_BATCH_TOKENS < tokens c \<and> tokens c \<le> MAX_TOKENS_PER_REQUEST))"
    and left: "sum_tokens cur \<le> MAX_BATCH_TOKENS \<or>
          (\<exists>c. cur = [c] \<and> MAX_BATCH_TOKENS < tokens c \<and> tokens c \<le> MAX_TOKENS_PER_REQUEST)"
    by simp_all
  have "\<forall>sb \<in> set (subBatches batchChunks).
         sb \<noteq> [] \<and>
         (sum_tokens sb \<le> MAX_BATCH_TOKENS \<or>
          (\<exists>c. sb = [c] \<and> MAX_BATCH_TOKENS < tokens c \<and> tokens c \<le> MAX_TOKENS_PER_REQUEST))"
  proof
    fix sb
    assume "sb \<in> set (subBatches batchChunks)"
    with plan have "sb \<in> set emitted \<or> (sb = cur \<and> cur \<noteq> [])"
      by (auto simp: subBatches_def split: if_splits)
    with closed left show "sb \<noteq> [] \<and>
         (sum_tokens sb \<le> MAX_BATCH_TOKENS \<or>
          (\<exists>c. sb = [c] \<and> MAX_BATCH_TOKENS < tokens c \<and> tokens c \<le> MAX_TOKENS_PER_REQUEST))"
      by blast
  qed
  with openai_requests_prefix[of create gen batchChunks] show ?thesis by blast
qed

theorem sub_batches_within_budget_witness:
  "subBatches [chunk_half, chunk_half, chunk_a, chunk_b, chunk_big] =
     [[chunk_half, chunk_half], [chunk_a], [chunk_big]]
   \<and> fst (processBatchEmbeddings echo_create echo_local
            [chunk_half, chunk_half, chunk_a, chunk_b, chunk_big] ''openai'') =
       [EmbeddingsCreate [''half'', ''half''], EmbeddingsCreate [''a''], EmbeddingsCreate [''big'']]
   \<and> sum_tokens [chunk_half, chunk_half] \<le> MAX_BATCH_TOKENS
   \<and> sum_tokens [chunk_a] \<le> MAX_BATCH_TOKENS
   \<and> MAX_BATCH_TOKENS < tokens chunk_big \<and> tokens chunk_big \<le> MAX_TOKENS_PER_REQUEST"
  using sub_batches_within_budget
          [of echo_create echo_local "[chunk_half, chunk_half, chunk_a, chunk_b, chunk_big]"]
  by (simp add: subBatches_def processBatchEmbeddings_def initial_sub_batch_state_def
      chunk_half_def chunk_a_def chunk_big_def chunk_b_def sum_tokens_def echo_create_def
      MAX_TOKENS_PER_REQUEST_def MAX_BATCH_TOKENS_def)

text \<open>
  C6, oversized-chunk isolation. The chunk over \<^verbatim>\<open>MAX_TOKENS_PER_REQUEST\<close> is in no
  sub-batch, and the sub-batches of the other chunks are what they would be without it
  (lemmas \<open>subBatches_members\<close> and \<open>subBatches_without_oversized\<close>). The part of the
  claim that the oversized chunk receives a \<^verbatim>\<open>null\<close> embedding fails on the code, by the
  defect of C1: for a text file extracted into the chunks \<open>a\<close>, \<open>b\<close> (300001 tokens) and
  \<open>c\<close>, the handler stores the row of \<open>b\<close> with the embedding of \<open>a\<close>, and the row of
  \<open>a\<close> with \<^verbatim>\<open>null\<close>.
\<close>

theorem oversized_chunk_row_not_null:
  "file_items (fst (POST (example_env\<lparr>env_processTxt := three_chunks\<rparr>)
                         (store_with example_row []))) =
     [\<lparr>item_file_id = ''f1'', item_user_id = ''u1'', item_content = ''a'', item_tokens = 10,
       openai_embedding = None, local_embedding = None\<rparr>,
      \<lparr>item_file_id = ''f1'', item_user_id = ''u1'', item_content = ''b'', item_tokens = 300001,
       openai_embedding = Some ''a'', local_embedding = None\<rparr>,
      \<lparr>item_file_id = ''f1'', item_user_id = ''u1'', item_content = ''c'', item_tokens = 10,
       openai_embedding = Some ''c'', local_embedding = None\<rparr>]"
  by (simp add: POST_def POST_try_def validate_request_def read_formData_def example_env_def
      example_form_def store_with_def example_row_def existingChunks_def chunks_exist_def
      mark_processing_def
      update_file_def load_file_def blob_of_def fileExtension_def toLowerCase_def
      processFileInBatches_def extract_chunks_def three_chunks_def chunk_a_def chunk_b_def
      chunk_c_def process_batches.simps[of _ _ _ _ _ 0] process_batches.simps[of _ _ _ _ _ 50]
      BATCH_SIZE_def processBatchEmbeddings_def initial_sub_batch_state_def
      MAX_TOKENS_PER_REQUEST_def MAX_BATCH_TOKENS_def echo_create_def batch_file_items_def
      embedding_at_def finalize_success_def success_response_def Let_def upt_conv_Cons)

section \<open>Properties of the client retry driver\<close>

declare processFileInBackground.simps [simp del]

lemma driver_retry_step:
  assumes "fetch_with_timeout server retryCount = (elapsed, result)"
    and "caught result = Some error" and "shouldRetry retryCount error"
    and "deadline = timeoutDuration retryCount"
    and "delay = baseDelay * 2 ^ retryCount"
    and "retry = retryCount + 1"
    and "later = now + elapsed + delay"
  shows "processFileInBackground server now retryCount =
           Attempt now retryCount deadline # Toast (Retrying delay retry) # SetTimeout delay #
           processFileInBackground server later retry"
  using assms by (subst processFileInBackground.simps) (simp add: Let_def)

lemma driver_final_step:
  assumes "fetch_with_timeout server retryCount = (elapsed, result)"
    and "caught result = Some error" and "\<not> shouldRetry retryCount error"
    and "deadline = timeoutDuration retryCount"
    and "shown = final_toast error"
  shows "processFileInBackground server now retryCount =
           [Attempt now retryCount deadline, Toast shown]"
  using assms by (subst processFileInBackground.simps) (simp add: Let_def)

lemma fetch_timed_out:
  assumes "timeoutDuration retryCount \<le> fst (server retryCount)"
  shows "fetch_with_timeout server retryCount =
           (timeoutDuration retryCount, FetchRejected abortError)"
  using assms by (cases "server retryCount") (simp add: fetch_with_timeout_def)

lemma shouldRetry_abortError: "shouldRetry retryCount abortError \<longleftrightarrow> retryCount < 3"
  by (simp add: shouldRetry_def abortError_def maxRetries_def)

text \<open>
  Four failures in a row, each one retryable while retries are left: the errors
  \<open>e k\<close> are caught after \<open>d k\<close> milliseconds.
\<close>

lemma four_failures:
  assumes fetches: "\<forall>k \<le> 3. fetch_with_timeout server k = (d k, r k) \<and> caught (r k) = Some (e k)"
    and retryable: "\<forall>k < 3. shouldRetry k (e k)"
  shows "processFileInBackground server now 0 =
     [Attempt now 0 600000, Toast (Retrying 2000 1), SetTimeout 2000,
      Attempt (now + d 0 + 2000) 1 300000, Toast (Retrying 4000 2), SetTimeout 4000,
      Attempt (now + d 0 + 2000 + d 1 + 4000) 2 300000, Toast (Retrying 8000 3), SetTimeout 8000,
      Attempt (now + d 0 + 2000 + d 1 + 4000 + d 2 + 8000) 3 300000, Toast (final_toast (e 3))]"
proof -
  have f0: "fetch_with_timeout server 0 = (d 0, r 0)" and c0: "caught (r 0) = Some (e 0)"
    using fetches[rule_format, of 0] by simp_all
  have f1: "fetch_with_timeout server 1 = (d 1, r 1)" and c1: "caught (r 1) = Some (e 1)"
    using fetches[rule_format, of 1] by simp_all
  have f2: "fetch_with_timeout server 2 = (d 2, r 2)" and c2: "caught (r 2) = Some (e 2)"
    using fetches[rule_format, of 2] by simp_all
  have f3: "fetch_with_timeout server 3 = (d 3, r 3)" and c3: "caught (r 3) = Some (e 3)"
    using fetches[rule_format, of 3] by simp_all
  have r0: "shouldRetry 0 (e 0)" and r1: "shouldRetry 1 (e 1)" and r2: "shouldRetry 2 (e 2)"
    using retryable[rule_format, of 0] retryable[rule_format, of 1] retryable[rule_format, of 2]
    by simp_all
  have r3: "\<not> shouldRetry 3 (e 3)"
    by (simp add: shouldRetry_def maxRetries_def)
  have s3: "processFileInBackground server (now + d 0 + 2000 + d 1 + 4000 + d 2 + 8000) 3 =
      [Attempt (now + d 0 + 2000 + d 1 + 4000 + d 2 + 8000) 3 300000, Toast (final_toast (e 3))]"
    by (rule driver_final_step[OF f3 c3 r3]) (simp_all add: timeoutDuration_def)
  have s2: "processFileInBackground server (now + d 0 + 2000 + d 1 + 4000) 2 =
      Attempt (now + d 0 + 2000 + d 1 + 4000) 2 300000 # Toast (Retrying 8000 3) #
      SetTimeout 8000 #
      processFileInBackground server (now + d 0 + 2000 + d 1 + 4000 + d 2 + 8000) 3"
    by (rule driver_retry_step[OF f2 c2 r2]) (simp_all add: timeoutDuration_def baseDelay_def)
  have s1: "processFileInBackground server (now + d 0 + 2000) 1 =
      Attempt (now + d 0 + 2000) 1 300000 # Toast (Retrying 4000 2) # SetTimeout 4000 #
      processFileInBackground server (now + d 0 + 2000 + d 1 + 4000) 2"
    by (rule driver_retry_step[OF f1 c1 r1]) (simp_all add: timeoutDuration_def baseDelay_def)
  have s0: "processFileInBackground server now 0 =
      Attempt now 0 600000 # Toast (Retrying 2000 1) # SetTimeout 2000 #
      processFileInBackground server (now + d 0 + 2000) 1"
    by (rule driver_retry_step[OF f0 c0 r0]) (simp_all add: timeoutDuration_def baseDelay_def)
  show ?thesis by (simp only: s0 s1 s2 s3)
qed

lemma four_timeouts:
  assumes "\<forall>retryCount \<le> 3. timeoutDuration retryCount \<le> fst (server retryCount)"
  shows "processFileInBackground server now 0 =
     [Attempt now 0 600000, Toast (Retrying 2000 1), SetTimeout 2000,
      Attempt (now + 602000) 1 300000, Toast (Retrying 4000 2), SetTimeout 4000,
      Attempt (now + 906000) 2 300000, Toast (Retrying 8000 3), SetTimeout 8000,
      Attempt (now + 1214000) 3 300000, Toast FinalTimedOut]"
proof -
  have fetches: "\<forall>k \<le> 3. fetch_with_timeout server k =
        (timeoutDuration k, FetchRejected abortError)
      \<and> caught (FetchRejected abortError) = Some abortError"
    using assms by (simp add: fetch_timed_out caught_def)
  have retryable: "\<forall>k < 3. shouldRetry k abortError"
    by (simp add: shouldRetry_abortError)
  have shown: "final_toast abortError = FinalTimedOut"
    by (simp add: final_toast_def abortError_def)
  from four_failures[of server timeoutDuration "\<lambda>k. FetchRejected abortError" "\<lambda>k. abortError" now,
        OF fetches retryable]
  show ?thesis by (simp add: timeoutDuration_def shown)
qed

text \<open>
  C8, backoff schedule, as stated: with every attempt aborted by its deadline the attempts
  are made at about 0, 2000, 4000 and 8000 ms. They are not: 2000, 4000 and 8000 ms are
  the delays, each counted from the failure before it. A server that never answers is
  tried at 0, 602000, 906000 and 1214000 ms; even a server whose requests fail at once
  is tried at 0, 2000, 6000 and 14000 ms.
\<close>

theorem backoff_times_counterexample:
  "map fst (attempts (processFileInBackground slow_server 0 0)) = [0, 602000, 906000, 1214000]
   \<and> map fst (attempts (processFileInBackground offline_server 0 0)) = [0, 2000, 6000, 14000]"
proof -
  have slow: "\<forall>retryCount \<le> 3. timeoutDuration retryCount \<le> fst (slow_server retryCount)"
    by (simp add: slow_server_def timeoutDuration_def)
  let ?error = "\<lparr>error_name = ''TypeError'', error_message = ''Failed to fetch''\<rparr>"
  have fetches: "\<forall>k \<le> 3. fetch_with_timeout offline_server k = (0, FetchRejected ?error)
      \<and> caught (FetchRejected ?error) = Some ?error"
    by (simp add: fetch_with_timeout_def offline_server_def timeoutDuration_def caught_def)
  have retryable: "\<forall>k < 3. shouldRetry k ?error"
    by (simp add: shouldRetry_def maxRetries_def)
  from four_failures[of offline_server "\<lambda>k. 0" "\<lambda>k. FetchRejected ?error" "\<lambda>k. ?error" 0,
        OF fetches retryable] four_timeouts[OF slow, of 0]
  show ?thesis by simp
qed

text \<open>
  C8, amended: when every attempt is aborted by its deadline, the driver makes exactly
  four attempts, with a deadline of 10 minutes for the first and of 5 minutes for each
  retry; after the failure of attempt \<open>k\<close> (\<open>k\<close> = 1, 2, 3) it announces the retry and
  schedules the next attempt \<^verbatim>\<open>baseDelay * 2 ^ (k - 1)\<close> = 2000, 4000, 8000 ms later, so the
  attempts start at \<open>t\<close>, \<open>t\<close> + 602000, \<open>t\<close> + 906000 and \<open>t\<close> + 1214000 ms; after the
  fourth failure it shows the final timed-out error and schedules nothing more.
\<close>

theorem retry_driver_schedule:
  assumes "\<forall>retryCount \<le> 3. timeoutDuration retryCount \<le> fst (server retryCount)"
  shows "processFileInBackground server t 0 =
     [Attempt t 0 (10 * 60 * 1000), Toast (Retrying 2000 1), SetTimeout (baseDelay * 2 ^ 0),
      Attempt (t + 602000) 1 (5 * 60 * 1000), Toast (Retrying 4000 2), SetTimeout (baseDelay * 2 ^ 1),
      Attempt (t + 906000) 2 (5 * 60 * 1000), Toast (Retrying 8000 3), SetTimeout (baseDelay * 2 ^ 2),
      Attempt (t + 1214000) 3 (5 * 60 * 1000), Toast FinalTimedOut]"
  using four_timeouts[OF assms, of t] by (simp add: baseDelay_def)

theorem retry_driver_schedule_witness:
  "attempts (processFileInBackground slow_server 100 0) =
     [(100, 0, 600000), (602100, 1, 300000), (906100, 2, 300000), (1214100, 3, 300000)]
   \<and> last (processFileInBackground slow_server 100 0) = Toast FinalTimedOut"
proof -
  have "\<forall>retryCount \<le> 3. timeoutDuration retryCount \<le> fst (slow_server retryCount)"
    by (simp add: slow_server_def timeoutDuration_def)
  from retry_driver_schedule[OF this, of 100] show ?thesis
    by (simp add: baseDelay_def)
qed

section \<open>Properties of the handler\<close>

declare process_batches.simps [simp del]

text \<open>What each step of the handler leaves as it was.\<close>

lemma read_formData_frame [simp]:
  "files (fst (read_formData env st)) = files st"
  "file_items (fst (read_formData env st)) = file_items st"
  "provider_calls (fst (read_formData env st)) = provider_calls st"
  "fst (read_formData env st) = st\<lparr>bodyUsed := True\<rparr>"
  by (simp_all add: read_formData_def)

lemma update_file_frame [simp]:
  "file_items (update_file file_id change st) = file_items st"
  "provider_calls (update_file file_id change st) = provider_calls st"
  "bodyUsed (update_file file_id change st) = bodyUsed st"
  by (simp_all add: update_file_def split: option.splits)

lemma update_file_files:
  "files (update_file file_id change st) other =
     (if other = file_id then map_option change (files st file_id) else files st other)"
  by (simp add: update_file_def split: option.splits)

text \<open>
  A request that passes the checks of lines 35 to 85 has both parameters, a known provider
  and a row it may use; the body of the request has then been read.
\<close>

lemma validate_request_Inr:
  assumes "snd (validate_request env st) = Inr (profile, file_id, embeddingsProvider, fileMetadata)"
  shows "env_getServerProfile env = Inr profile
    \<and> (\<exists>formData. snd (read_formData env st) = Inr formData
           \<and> form_file_id formData = Some file_id
           \<and> form_embeddingsProvider formData = Some embeddingsProvider)
    \<and> file_id \<noteq> []
    \<and> (embeddingsProvider = ''openai'' \<or> embeddingsProvider = ''local'')
    \<and> env_metadataError env = None
    \<and> files st file_id = Some fileMetadata
    \<and> user_id fileMetadata = profile_user_id profile
    \<and> file_size fileMetadata \<le> 200 * 1024 * 1024
    \<and> fst (validate_request env st) = st\<lparr>bodyUsed := True\<rparr>"
proof -
  note d = validate_request_def case_prod_beta
  from assms obtain p where p: "env_getServerProfile env = Inr p"
    by (cases "env_getServerProfile env") (simp_all add: d)
  from assms p obtain form where form: "snd (read_formData env st) = Inr form"
    by (cases "snd (read_formData env st)") (simp_all add: d)
  from assms p form obtain fid where fid: "form_file_id form = Some fid"
    by (cases "form_file_id form") (simp_all add: d)
  from assms p form fid obtain prov where prov: "form_embeddingsProvider form = Some prov"
    by (cases "form_embeddingsProvider form") (simp_all add: d)
  from assms p form fid prov have nonempty: "fid \<noteq> []" "prov \<noteq> []"
    by (simp_all add: d split: if_splits)
  from assms p form fid prov nonempty have known: "prov = ''openai'' \<or> prov = ''local''"
    by (simp add: d split: if_splits)
  from assms p form fid prov nonempty known have meta: "env_metadataError env = None"
    by (cases "env_metadataError env") (simp_all add: d split: if_splits)
  from assms p form fid prov nonempty known meta
  obtain row where row: "files st fid = Some row"
    by (cases "files st fid") (simp_all add: d split: if_splits)
  from assms p form fid prov nonempty known meta row
  have owner: "user_id row = profile_user_id p"
    by (simp add: d split: if_splits)
  from assms p form fid prov nonempty known meta row owner
  have small: "file_size row \<le> 200 * 1024 * 1024"
    by (simp add: d split: if_splits)
  from assms p form fid prov nonempty known meta row owner small
  have same: "profile = p" "file_id = fid" "embeddingsProvider = prov" "fileMetadata = row"
    by (simp_all add: d split: if_splits)
  from p form have store: "fst (validate_request env st) = st\<lparr>bodyUsed := True\<rparr>"
    by (simp add: d split: option.splits)
  from p form fid prov nonempty known meta row owner small same store show ?thesis
    by simp
qed


lemma validate_request_store:
  "fst (validate_request env st) =
     (case env_getServerProfile env of Inl err \<Rightarrow> st | Inr profile \<Rightarrow> st\<lparr>bodyUsed := True\<rparr>)"
  by (simp add: validate_request_def read_formData_def
      split: sum.splits option.splits prod.splits)

lemma validate_request_frame [simp]:
  "files (fst (validate_request env st)) = files st"
  "file_items (fst (validate_request env st)) = file_items st"
  "provider_calls (fst (validate_request env st)) = provider_calls st"
  by (simp_all add: validate_request_store split: sum.splits)

lemma process_batches_frame:
  "files (fst (process_batches env file_id uid provider chunks i st)) = files st
   \<and> bodyUsed (fst (process_batches env file_id uid provider chunks i st)) = bodyUsed st"
proof (induction env file_id uid provider chunks i st rule: process_batches.induct)
  case (1 env file_id uid provider chunks i st)
  show ?case
  proof (cases "i < length chunks")
    case False
    then show ?thesis by (simp add: process_batches.simps)
  next
    case True
    obtain calls res where pbe: "processBatchEmbeddings (env_embeddings_create env)
        (env_generateLocalEmbedding env) (take BATCH_SIZE (drop i chunks)) provider = (calls, res)"
      by (cases "processBatchEmbeddings (env_embeddings_create env)
        (env_generateLocalEmbedding env) (take BATCH_SIZE (drop i chunks)) provider")
    show ?thesis
    proof (cases res)
      case (Inl err)
      with True pbe show ?thesis
        by (subst process_batches.simps, subst process_batches.simps) simp
    next
      case (Inr embeddings)
      from "1.IH"[OF True refl pbe[symmetric] Inr] True pbe Inr show ?thesis
        by (subst process_batches.simps, subst process_batches.simps) simp
    qed
  qed
qed

lemma processFileInBatches_files:
  "files (fst (processFileInBatches env file_id uid provider extension blob st)) = files st"
proof (cases "extract_chunks env extension blob")
  case (Inl err)
  then show ?thesis by (simp add: processFileInBatches_def)
next
  case (Inr chunks)
  with process_batches_frame[of env file_id uid provider chunks 0 st] show ?thesis
    by (cases "process_batches env file_id uid provider chunks 0 st";
        cases "snd (process_batches env file_id uid provider chunks 0 st)")
       (simp_all add: processFileInBatches_def)
qed

lemma processFileInBatches_rejects:
  assumes "extension \<notin> {''csv'', ''json'', ''md'', ''pdf'', ''txt''}
           \<or> extract_chunks env extension blob = Inr []"
  shows "processFileInBatches env file_id uid provider extension blob st =
           (st, Inl (if extension \<in> {''csv'', ''json'', ''md'', ''pdf'', ''txt''}
                     then ''File could not be processed or is empty''
                     else ''Unsupported file type''))"
proof (cases "extension \<in> {''csv'', ''json'', ''md'', ''pdf'', ''txt''}")
  case True
  with assms have "extract_chunks env extension blob = Inr []" by blast
  with True show ?thesis by (simp add: processFileInBatches_def)
next
  case False
  then have "extract_chunks env extension blob = Inl ''Unsupported file type''"
    by (simp add: extract_chunks_def)
  with False show ?thesis by (simp add: processFileInBatches_def)
qed

text \<open>
  The six ways through the \<^verbatim>\<open>try\<close> block: the request is refused by a check, the file
  already has chunks, the file is being processed, the file cannot be loaded, the
  extraction or the embedding fails, or the run succeeds.
\<close>

lemma POST_try_cases [case_names Invalid Already Busy Unloadable Failed Succeeded]:
  obtains
    (Invalid) st1 err where
      "validate_request env st = (st1, Inl err)"
      "POST_try env st = (st1, Inl err)"
  | (Already) st1 profile file_id provider fileMetadata where
      "validate_request env st = (st1, Inr (profile, file_id, provider, fileMetadata))"
      "chunks_exist (existingChunks env st1 file_id)"
      "POST_try env st = (st1, Inr already_processed_response)"
  | (Busy) st1 profile file_id provider fileMetadata where
      "validate_request env st = (st1, Inr (profile, file_id, provider, fileMetadata))"
      "\<not> chunks_exist (existingChunks env st1 file_id)"
      "processing_status fileMetadata = processing"
      "POST_try env st = (st1, Inl ''File is currently being processed by another request'')"
  | (Unloadable) st1 profile file_id provider fileMetadata err where
      "validate_request env st = (st1, Inr (profile, file_id, provider, fileMetadata))"
      "\<not> chunks_exist (existingChunks env st1 file_id)"
      "processing_status fileMetadata \<noteq> processing"
      "load_file env fileMetadata provider = Inl err"
      "POST_try env st = (mark_processing env file_id st1, Inl err)"
  | (Failed) st1 profile file_id provider fileMetadata fileBuffer extension st3 err where
      "validate_request env st = (st1, Inr (profile, file_id, provider, fileMetadata))"
      "\<not> chunks_exist (existingChunks env st1 file_id)"
      "processing_status fileMetadata \<noteq> processing"
      "load_file env fileMetadata provider = Inr (fileBuffer, extension)"
      "processFileInBatches env file_id (profile_user_id profile) provider extension fileBuffer
         (mark_processing env file_id st1) = (st3, Inl err)"
      "POST_try env st = (st3, Inl err)"
  | (Succeeded) st1 profile file_id provider fileMetadata fileBuffer extension st3
        chunks_total tokens_total where
      "validate_request env st = (st1, Inr (profile, file_id, provider, fileMetadata))"
      "\<not> chunks_exist (existingChunks env st1 file_id)"
      "processing_status fileMetadata \<noteq> processing"
      "load_file env fileMetadata provider = Inr (fileBuffer, extension)"
      "processFileInBatches env file_id (profile_user_id profile) provider extension fileBuffer
         (mark_processing env file_id st1) = (st3, Inr (chunks_total, tokens_total))"
      "POST_try env st =
         (finalize_success env file_id tokens_total st3,
          Inr (success_response env chunks_total tokens_total))"
proof -
  obtain st1 v where v: "validate_request env st = (st1, v)"
    by (cases "validate_request env st")
  show thesis
  proof (cases v)
    case (Inl err)
    with v have "POST_try env st = (st1, Inl err)" by (simp add: POST_try_def)
    with v Inl show thesis by (auto intro: Invalid)
  next
    case (Inr ok)
    obtain profile file_id provider fileMetadata
      where ok: "ok = (profile, file_id, provider, fileMetadata)"
      by (cases ok)
    note valid = v[unfolded Inr ok]
    show thesis
    proof (cases "chunks_exist (existingChunks env st1 file_id)")
      case True
      with valid have "POST_try env st = (st1, Inr already_processed_response)"
        by (simp add: POST_try_def)
      with valid True show thesis by (rule Already)
    next
      case none: False
      show thesis
      proof (cases "processing_status fileMetadata = processing")
        case True
        with valid none have "POST_try env st =
            (st1, Inl ''File is currently being processed by another request'')"
          by (simp add: POST_try_def)
        with valid none True show thesis by (rule Busy)
      next
        case free: False
        show thesis
        proof (cases "load_file env fileMetadata provider")
          case (Inl err)
          with valid none free have "POST_try env st = (mark_processing env file_id st1, Inl err)"
            by (simp add: POST_try_def)
          with valid none free Inl show thesis by (rule Unloadable)
        next
          case (Inr loaded)
          obtain fileBuffer extension where loaded: "loaded = (fileBuffer, extension)"
            by (cases loaded)
          note load = Inr[unfolded loaded]
          obtain st3 res where run: "processFileInBatches env file_id (profile_user_id profile)
              provider extension fileBuffer (mark_processing env file_id st1) = (st3, res)"
            by (cases "processFileInBatches env file_id (profile_user_id profile)
              provider extension fileBuffer (mark_processing env file_id st1)")
          show thesis
          proof (cases res)
            case (Inl err)
            with valid none free load run have "POST_try env st = (st3, Inl err)"
              by (simp add: POST_try_def)
            with valid none free load run[unfolded Inl] show thesis by (rule Failed)
          next
            case (Inr totals)
            obtain chunks_total tokens_total where totals: "totals = (chunks_total, tokens_total)"
              by (cases totals)
            from valid none free load run Inr totals
            have "POST_try env st =
                (finalize_success env file_id tokens_total st3,
                 Inr (success_response env chunks_total tokens_total))"
              by (simp add: POST_try_def)
            with valid none free load run[unfolded Inr totals] show thesis by (rule Succeeded)
          qed
        qed
      qed
    qed
  qed
qed

text \<open>The codes of the error response, and the status update of the \<^verbatim>\<open>catch\<close> block.\<close>

lemma errorCode_values:
  "errorCode message \<in> {408, 413, 403, 404, 503, 500}"
  by (simp add: errorCode_def)

lemma errorCode_not_200: "errorCode message \<noteq> 200"
  by (simp add: errorCode_def)

lemma errorCode_408: "errorCode message = 408 \<longleftrightarrow> str_includes message ''timeout''"
  by (simp add: errorCode_def)

lemma finalize_failure_frame [simp]:
  "file_items (finalize_failure env message st) = file_items st"
  "provider_calls (finalize_failure env message st) = provider_calls st"
  by (simp_all add: finalize_failure_def case_prod_beta split: sum.splits option.splits)

lemma finalize_failure_thrown:
  assumes "(\<exists>err. snd (read_formData env st) = Inl err) \<or> env_status_update_error env \<noteq> None"
  shows "finalize_failure env message st = st\<lparr>bodyUsed := True\<rparr>"
  using assms
  by (auto simp: finalize_failure_def case_prod_beta split: sum.splits option.splits)

lemma finalize_failure_applied:
  assumes "snd (read_formData env st) = Inr formData"
    and "form_file_id formData = Some file_id" and "file_id \<noteq> []"
    and "env_status_update_error env = None"
  shows "finalize_failure env message st =
           update_file file_id
             (\<lambda>row. row\<lparr>processing_status := errorStatus message,
                        processing_completed_at := Some (env_completed_at env),
                        processing_error := Some (if message = [] then ''Unknown error'' else message)\<rparr>)
             (st\<lparr>bodyUsed := True\<rparr>)"
  using assms
  by (simp add: finalize_failure_def case_prod_beta)


text \<open>The early return of the guard: only the body of the request has been read.\<close>

lemma POST_already_processed:
  assumes "validate_request env (st\<lparr>bodyUsed := False\<rparr>) = (st1, Inr (profile, file_id, provider, fileMetadata))"
    and "chunks_exist (existingChunks env st1 file_id)"
  shows "POST env st = (st\<lparr>bodyUsed := True\<rparr>, already_processed_response)"
proof -
  from validate_request_Inr[of env "st\<lparr>bodyUsed := False\<rparr>" profile file_id provider fileMetadata] assms(1)
  have "st1 = st\<lparr>bodyUsed := True\<rparr>" by simp
  with assms show ?thesis by (simp add: POST_def POST_try_def)
qed





text \<open>
  C10: when the admission check finds a chunk row for the file, the response is the
  already-processed one and its statistics are zero chunks, zero tokens and zero batches,
  whatever the store holds for the file.
\<close>

theorem already_processed_statistics:
  assumes "validate_request env (st\<lparr>bodyUsed := False\<rparr>) =
             (st1, Inr (profile, file_id, embeddingsProvider, fileMetadata))"
    and "chunks_exist (existingChunks env st1 file_id)"
  shows "resp_status (snd (POST env st)) = 200
         \<and> resp_message (snd (POST env st)) = ''File already processed''
         \<and> resp_statistics (snd (POST env st)) =
             Some \<lparr>totalChunks = 0, totalTokens = 0, batchesProcessed = 0, processingTimeMs = None\<rparr>"
  using POST_already_processed[OF assms] by (simp add: already_processed_response_def)

theorem already_processed_statistics_witness:
  "item_tokens stored_item = 10
   \<and> resp_status (snd (POST example_env (store_with example_row [stored_item]))) = 200
   \<and> resp_message (snd (POST example_env (store_with example_row [stored_item]))) =
       ''File already processed''
   \<and> resp_statistics (snd (POST example_env (store_with example_row [stored_item]))) =
       Some \<lparr>totalChunks = 0, totalTokens = 0, batchesProcessed = 0, processingTimeMs = None\<rparr>"
proof -
  let ?st = "store_with example_row [stored_item]"
  have valid: "validate_request example_env (?st\<lparr>bodyUsed := False\<rparr>) =
      (?st\<lparr>bodyUsed := True\<rparr>, Inr (\<lparr>profile_user_id = ''u1''\<rparr>, ''f1'', ''openai'', example_row))"
    by (simp add: validate_request_def read_formData_def example_env_def example_form_def
        store_with_def example_row_def)
  have found: "chunks_exist (existingChunks example_env (?st\<lparr>bodyUsed := True\<rparr>) ''f1'')"
    by (simp add: existingChunks_def chunks_exist_def example_env_def store_with_def
        stored_item_def)
  from already_processed_statistics[OF valid found] show ?thesis
    by (simp add: stored_item_def)
qed

text \<open>
  After admission the row of the file says \<^verbatim>\<open>processing\<close>, and a failure later in the
  \<^verbatim>\<open>try\<close> block leaves the rows of \<^verbatim>\<open>files\<close> as that write set them.
\<close>

lemma mark_processing_files:
  "files st file_id = Some row \<Longrightarrow>
   files (mark_processing env file_id st) file_id =
     Some (row\<lparr>processing_status := processing,
               processing_started_at := Some (env_started_at env),
               processing_error := None\<rparr>)"
  by (simp add: mark_processing_def update_file_files)

lemma mark_processing_frame [simp]:
  "file_items (mark_processing env file_id st) = file_items st"
  "provider_calls (mark_processing env file_id st) = provider_calls st"
  "bodyUsed (mark_processing env file_id st) = bodyUsed st"
  by (simp_all add: mark_processing_def)




text \<open>
  The two rejections of \<^verbatim>\<open>processFileInBatches\<close> match none of the categories of the
  \<^verbatim>\<open>catch\<close> block.
\<close>

lemma rejection_codes:
  "errorCode ''Unsupported file type'' = 500"
  "errorCode ''File could not be processed or is empty'' = 500"
  "errorMessage ''Unsupported file type'' = ''Unsupported file type''"
  "errorMessage ''File could not be processed or is empty'' =
     ''File could not be processed or is empty''"
  "errorStatus ''Unsupported file type'' = failed"
  "errorStatus ''File could not be processed or is empty'' = failed"
  by (simp_all add: errorCode_def errorMessage_def errorStatus_def)

text \<open>
  Whatever the status update of the \<^verbatim>\<open>catch\<close> block does, a row keeps its start time,
  and its status stays or becomes the one of the error.
\<close>

lemma finalize_failure_row:
  assumes "files st file_id = Some row"
  shows "\<exists>row'. files (finalize_failure env message st) file_id = Some row'
           \<and> processing_started_at row' = processing_started_at row
           \<and> (processing_status row' = processing_status row
                \<or> processing_status row' = errorStatus message)"
proof (cases "snd (read_formData env st)")
  case (Inl err)
  then have "finalize_failure env message st = st\<lparr>bodyUsed := True\<rparr>"
    by (simp add: finalize_failure_thrown)
  with assms show ?thesis by simp
next
  case (Inr formData)
  show ?thesis
  proof (cases "form_file_id formData")
    case None
    with Inr have "finalize_failure env message st = st\<lparr>bodyUsed := True\<rparr>"
      by (simp add: finalize_failure_def case_prod_beta)
    with assms show ?thesis by simp
  next
    case (Some named)
    show ?thesis
    proof (cases "named = [] \<or> env_status_update_error env \<noteq> None")
      case True
      with Inr Some have "finalize_failure env message st = st\<lparr>bodyUsed := True\<rparr>"
        by (auto simp: finalize_failure_def case_prod_beta)
      with assms show ?thesis by simp
    next
      case False
      then have "named \<noteq> []" and "env_status_update_error env = None" by auto
      from finalize_failure_applied[OF Inr Some this, where message = message] assms
      show ?thesis
        by (cases "file_id = named") (auto simp: update_file_files)
    qed
  qed
qed

text \<open>
  C5, clean rejection. The claim fails on the code. A file with an extension that has no
  extractor, or one that yields no chunk, is refused only inside
  \<^verbatim>\<open>processFileInBatches\<close>, after the row was marked \<^verbatim>\<open>processing\<close>, and the message of
  the rejection matches no category of the \<^verbatim>\<open>catch\<close> block: a pending \<^verbatim>\<open>notes.xyz\<close>, and a
  text file without chunks, both end with the response 500 and with a status that is no
  longer \<^verbatim>\<open>pending\<close>. The earlier copies of the handler (part\_002) return 400 for both
  before anything is written.
\<close>

theorem rejection_answers_500:
  "fileExtension (name xyz_row) = ''xyz''
   \<and> resp_status (snd (POST example_env (store_with xyz_row []))) = 500
   \<and> map_option processing_status (files (store_with xyz_row []) ''f1'') = Some pending
   \<and> map_option processing_status
         (files (fst (POST example_env (store_with xyz_row []))) ''f1'') = Some processing
   \<and> resp_status (snd (POST (example_env\<lparr>env_processTxt := no_chunks\<rparr>)
                        (store_with example_row []))) = 500
   \<and> map_option processing_status
         (files (fst (POST (example_env\<lparr>env_processTxt := no_chunks\<rparr>)
                       (store_with example_row []))) ''f1'') = Some processing"
  by (simp add: POST_def POST_try_def validate_request_def read_formData_def example_env_def
      example_form_def store_with_def xyz_row_def example_row_def existingChunks_def chunks_exist_def
      mark_processing_def update_file_def load_file_def blob_of_def fileExtension_def
      toLowerCase_def processFileInBatches_def extract_chunks_def no_chunks_def
      finalize_failure_def error_response_def errorCode_def)

text \<open>
  The same for every admitted request whose file loads and whose API key is accepted:
  the response is 500, no row is written and no provider is called, and the row of the
  file has been marked \<^verbatim>\<open>processing\<close>.
\<close>

lemma unsupported_or_empty_rejection:
  assumes valid: "validate_request env (st\<lparr>bodyUsed := False\<rparr>) =
             (admitted, Inr (profile, file_id, embeddingsProvider, fileMetadata))"
    and none: "\<not> chunks_exist (existingChunks env admitted file_id)"
    and free: "processing_status fileMetadata \<noteq> processing"
    and load: "load_file env fileMetadata embeddingsProvider = Inr (fileBuffer, extension)"
    and rejected: "extension \<notin> {''csv'', ''json'', ''md'', ''pdf'', ''txt''}
           \<or> extract_chunks env extension fileBuffer = Inr []"
  shows "resp_status (snd (POST env st)) = 500
         \<and> resp_message (snd (POST env st)) =
             (if extension \<in> {''csv'', ''json'', ''md'', ''pdf'', ''txt''}
              then ''File could not be processed or is empty'' else ''Unsupported file type'')
         \<and> file_items (fst (POST env st)) = file_items st
         \<and> provider_calls (fst (POST env st)) = provider_calls st
         \<and> (\<exists>row. files (fst (POST env st)) file_id = Some row
                \<and> processing_started_at row = Some (env_started_at env)
                \<and> (processing_status row = processing \<or> processing_status row = failed))"
proof -
  let ?message = "if extension \<in> {''csv'', ''json'', ''md'', ''pdf'', ''txt''}
              then ''File could not be processed or is empty'' else ''Unsupported file type''"
  let ?st2 = "mark_processing env file_id admitted"
  from validate_request_Inr[of env "st\<lparr>bodyUsed := False\<rparr>" profile file_id
      embeddingsProvider fileMetadata] valid
  have row: "files admitted file_id = Some fileMetadata"
    and admitted: "admitted = st\<lparr>bodyUsed := True\<rparr>"
    by simp_all
  from processFileInBatches_rejects[OF rejected, of file_id "profile_user_id profile"
      embeddingsProvider ?st2]
  have run: "processFileInBatches env file_id (profile_user_id profile) embeddingsProvider
      extension fileBuffer ?st2 = (?st2, Inl ?message)" .
  from valid none free load run
  have thrown: "POST_try env (st\<lparr>bodyUsed := False\<rparr>) = (?st2, Inl ?message)"
    by (simp add: POST_try_def)
  then have post: "POST env st = (finalize_failure env ?message ?st2, error_response env ?message)"
    by (simp add: POST_def)
  have status: "errorStatus ?message = failed"
    by (simp add: rejection_codes)
  from finalize_failure_row[OF mark_processing_files[OF row, of env],
      where env = env and message = ?message] status
  have "\<exists>row. files (finalize_failure env ?message ?st2) file_id = Some row
                \<and> processing_started_at row = Some (env_started_at env)
                \<and> (processing_status row = processing \<or> processing_status row = failed)"
    by simp
  with post admitted show ?thesis
    by (simp add: error_response_def rejection_codes)
qed

text \<open>
  Every write to \<^verbatim>\<open>files\<close> sets the error and the status together, so the invariant of
  the status fields is kept by each step and by the handler.
\<close>

lemma update_file_invariant:
  assumes "\<forall>fid row. files st fid = Some row \<longrightarrow> error_only_when_failed row"
    and "\<forall>row. error_only_when_failed (change row)"
  shows "\<forall>fid row. files (update_file file_id change st) fid = Some row \<longrightarrow> error_only_when_failed row"
  using assms by (auto simp: update_file_files split: if_splits)

lemma same_files_invariant:
  assumes "\<forall>fid row. files st fid = Some row \<longrightarrow> error_only_when_failed row"
    and "files st' = files st"
  shows "\<forall>fid row. files st' fid = Some row \<longrightarrow> error_only_when_failed row"
  using assms by simp

lemma mark_processing_invariant:
  assumes "\<forall>fid row. files st fid = Some row \<longrightarrow> error_only_when_failed row"
  shows "\<forall>fid row. files (mark_processing env file_id st) fid = Some row \<longrightarrow> error_only_when_failed row"
  unfolding mark_processing_def
  by (rule update_file_invariant[OF assms]) (simp add: error_only_when_failed_def)

lemma finalize_success_invariant:
  assumes "\<forall>fid row. files st fid = Some row \<longrightarrow> error_only_when_failed row"
  shows "\<forall>fid row. files (finalize_success env file_id t st) fid = Some row \<longrightarrow> error_only_when_failed row"
  unfolding finalize_success_def
  by (rule update_file_invariant[OF assms]) (simp add: error_only_when_failed_def)

lemma finalize_failure_invariant:
  assumes "\<forall>fid row. files st fid = Some row \<longrightarrow> error_only_when_failed row"
  shows "\<forall>fid row. files (finalize_failure env message st) fid = Some row \<longrightarrow> error_only_when_failed row"
proof (cases "\<exists>formData file_id. snd (read_formData env st) = Inr formData
      \<and> form_file_id formData = Some file_id \<and> file_id \<noteq> [] \<and> env_status_update_error env = None")
  case True
  then obtain formData file_id where "snd (read_formData env st) = Inr formData"
    "form_file_id formData = Some file_id" "file_id \<noteq> []" "env_status_update_error env = None"
    by blast
  from finalize_failure_applied[OF this, where message = message]
  have applied: "finalize_failure env message st =
      update_file file_id
             (\<lambda>row. row\<lparr>processing_status := errorStatus message,
                        processing_completed_at := Some (env_completed_at env),
                        processing_error := Some (if message = [] then ''Unknown error'' else message)\<rparr>)
             (st\<lparr>bodyUsed := True\<rparr>)" .
  have "\<forall>fid row. files (st\<lparr>bodyUsed := True\<rparr>) fid = Some row \<longrightarrow> error_only_when_failed row"
    using assms by simp
  then show ?thesis
    unfolding applied
    by (rule update_file_invariant) (simp add: error_only_when_failed_def errorStatus_def)
next
  case False
  then have "finalize_failure env message st = st\<lparr>bodyUsed := True\<rparr>"
    by (cases "snd (read_formData env st)")
       (auto simp: finalize_failure_def case_prod_beta split: option.splits)
  with assms show ?thesis by simp
qed

lemma POST_invariant:
  assumes inv: "\<forall>fid row. files st fid = Some row \<longrightarrow> error_only_when_failed row"
  shows "\<forall>fid row. files (fst (POST env st)) fid = Some row \<longrightarrow> error_only_when_failed row"
proof -
  let ?st = "st\<lparr>bodyUsed := False\<rparr>"
  have start: "\<And>st1 v. validate_request env ?st = (st1, v) \<Longrightarrow>
      \<forall>fid row. files st1 fid = Some row \<longrightarrow> error_only_when_failed row"
  proof -
    fix st1 v assume "validate_request env ?st = (st1, v)"
    with validate_request_frame(1)[of env ?st] have "files st1 = files st" by simp
    with inv show "\<forall>fid row. files st1 fid = Some row \<longrightarrow> error_only_when_failed row" by simp
  qed
  show ?thesis
  proof (cases rule: POST_try_cases[of env ?st])
    case (Invalid st1 err)
    from finalize_failure_invariant[OF start[OF Invalid(1)], of env err] Invalid(2)
    show ?thesis by (simp add: POST_def)
  next
    case (Already st1 profile fid provider fileMetadata)
    from start[OF Already(1)] Already(3) show ?thesis by (simp add: POST_def)
  next
    case (Busy st1 profile fid provider fileMetadata)
    from finalize_failure_invariant[OF start[OF Busy(1)], of env] Busy(4)
    show ?thesis by (simp add: POST_def)
  next
    case (Unloadable st1 profile fid provider fileMetadata err)
    from finalize_failure_invariant[OF mark_processing_invariant[OF start[OF Unloadable(1)]], of env err env fid]
      Unloadable(5)
    show ?thesis by (simp add: POST_def)
  next
    case (Failed st1 profile fid provider fileMetadata fileBuffer extension st3 err)
    from processFileInBatches_files[of env fid "profile_user_id profile" provider extension
        fileBuffer "mark_processing env fid st1"] Failed(5)
    have "files st3 = files (mark_processing env fid st1)" by simp
    from same_files_invariant[OF mark_processing_invariant[OF start[OF Failed(1)]] this]
    have "\<forall>fid row. files st3 fid = Some row \<longrightarrow> error_only_when_failed row" .
    from finalize_failure_invariant[OF this, of env err] Failed(6)
    show ?thesis by (simp add: POST_def)
  next
    case (Succeeded st1 profile fid provider fileMetadata fileBuffer extension st3 n t)
    from processFileInBatches_files[of env fid "profile_user_id profile" provider extension
        fileBuffer "mark_processing env fid st1"] Succeeded(5)
    have "files st3 = files (mark_processing env fid st1)" by simp
    from same_files_invariant[OF mark_processing_invariant[OF start[OF Succeeded(1)]] this]
    have "\<forall>fid row. files st3 fid = Some row \<longrightarrow> error_only_when_failed row" .
    from finalize_success_invariant[OF this, of env fid t] Succeeded(6)
    show ?thesis by (simp add: POST_def)
  qed
qed

text \<open>
  A response \<^verbatim>\<open>Embed Successful\<close> comes only from a run that reached the last update, and
  an applied status update of the \<^verbatim>\<open>catch\<close> block writes the status that goes with the
  code of the response.
\<close>

lemma POST_success_row:
  assumes form: "env_formData env = Inr formData" "form_file_id formData = Some file_id"
    and ok: "resp_status (snd (POST env st)) = 200"
      "resp_message (snd (POST env st)) = ''Embed Successful''"
  shows "\<exists>row. files (fst (POST env st)) file_id = Some row
           \<and> processing_status row = completed
           \<and> processing_error row = None
           \<and> map_option totalTokens (resp_statistics (snd (POST env st))) = Some (file_tokens row)"
proof -
  let ?st = "st\<lparr>bodyUsed := False\<rparr>"
  show ?thesis
  proof (cases rule: POST_try_cases[of env ?st])
    case (Invalid st1 err)
    with ok(1) show ?thesis by (simp add: POST_def error_response_def errorCode_not_200)
  next
    case (Already st1 profile fid provider fileMetadata)
    with ok(2) show ?thesis by (simp add: POST_def already_processed_response_def)
  next
    case (Busy st1 profile fid provider fileMetadata)
    with ok(1) show ?thesis by (simp add: POST_def error_response_def errorCode_not_200)
  next
    case (Unloadable st1 profile fid provider fileMetadata err)
    with ok(1) show ?thesis by (simp add: POST_def error_response_def errorCode_not_200)
  next
    case (Failed st1 profile fid provider fileMetadata fileBuffer extension st3 err)
    with ok(1) show ?thesis by (simp add: POST_def error_response_def errorCode_not_200)
  next
    case (Succeeded st1 profile fid provider fileMetadata fileBuffer extension st3 n t)
    from validate_request_Inr[of env ?st profile fid provider fileMetadata] Succeeded(1) form
    have fid: "fid = file_id" and row: "files st1 fid = Some fileMetadata"
      by (auto simp: read_formData_def)
    from processFileInBatches_files[of env fid "profile_user_id profile" provider extension
        fileBuffer "mark_processing env fid st1"] Succeeded(5)
    have "files st3 = files (mark_processing env fid st1)" by simp
    with mark_processing_files[OF row, of env]
    have "files st3 fid = Some (fileMetadata\<lparr>processing_status := processing,
               processing_started_at := Some (env_started_at env),
               processing_error := None\<rparr>)" by simp
    with Succeeded(6) fid show ?thesis
      by (simp add: POST_def finalize_success_def update_file_files success_response_def)
  qed
qed

lemma POST_failure_row:
  assumes thrown: "POST_try env (st\<lparr>bodyUsed := False\<rparr>) = (st1, Inl message)"
    and form: "snd (read_formData env st1) = Inr formData" "form_file_id formData = Some file_id"
      "file_id \<noteq> []"
    and update: "env_status_update_error env = None"
    and row: "files st1 file_id = Some row1"
  shows "\<exists>row. files (fst (POST env st)) file_id = Some row
           \<and> processing_status row =
               (if resp_status (snd (POST env st)) = 408 then timeout else failed)
           \<and> processing_error row \<noteq> None
           \<and> (str_includes message ''timeout'' \<longleftrightarrow> resp_status (snd (POST env st)) = 408)"
proof -
  from thrown have "POST env st = (finalize_failure env message st1, error_response env message)"
    by (simp add: POST_def)
  with finalize_failure_applied[OF form update, where message = message] row show ?thesis
    by (simp add: update_file_files error_response_def errorCode_408 errorStatus_def)
qed

text \<open>
  C4, state-machine coverage. The claim fails on the code: a failing run does not end
  with the status \<^verbatim>\<open>failed\<close> or \<^verbatim>\<open>timeout\<close>. The \<^verbatim>\<open>catch\<close> block reads the form of the
  request again before it writes the status (line 444); the body was read at line 37, the
  second read throws, and the write of lines 457 to 464 is not made. For a pending text
  file whose embedding call fails the run ends with the response 500, the status
  \<^verbatim>\<open>processing\<close> and no error message. What holds is the success part (lemma
  \<open>POST_success_row\<close>) and the invariant of the status fields (lemma \<open>POST_invariant\<close>).
\<close>

theorem failed_run_stays_processing:
  "resp_status (snd (POST (example_env\<lparr>env_embeddings_create := failing_create\<rparr>)
                         (store_with example_row []))) = 500
   \<and> map_option processing_status
         (files (fst (POST (example_env\<lparr>env_embeddings_create := failing_create\<rparr>)
                           (store_with example_row []))) ''f1'') = Some processing
   \<and> map_option processing_error
         (files (fst (POST (example_env\<lparr>env_embeddings_create := failing_create\<rparr>)
                           (store_with example_row []))) ''f1'') = Some None"
  by (simp add: POST_def POST_try_def validate_request_def read_formData_def example_env_def
      example_form_def store_with_def example_row_def existingChunks_def chunks_exist_def mark_processing_def
      update_file_def load_file_def blob_of_def fileExtension_def toLowerCase_def
      processFileInBatches_def extract_chunks_def two_chunks_def chunk_a_def
      chunk_c_def process_batches.simps[of _ _ _ _ _ 0] process_batches.simps[of _ _ _ _ _ 50]
      BATCH_SIZE_def processBatchEmbeddings_def initial_sub_batch_state_def
      MAX_TOKENS_PER_REQUEST_def MAX_BATCH_TOKENS_def failing_create_def
      finalize_failure_def error_response_def errorCode_def Let_def)

end
